theory Spec2Isabelle
  imports Complex_Main "HOL-Library.AList" "HOL-Library.Log_Nat"
begin

section \<open>Python values shared by the three modules\<close>

text \<open>
  A Python \<open>str\<close> is represented by its UTF-8 encoding, one \<open>char\<close> per byte: the
  Korean literals of the sources are written as their bytes (\<open>CHR 0x..\<close>), ASCII text as
  string literals. Concatenation, comparison and splitting at ASCII characters agree on
  both representations, and \<open>save_as_txt\<close> writes exactly these bytes
  (\<open>encoding='utf-8'\<close>).

  An exception is a value: its class and the message \<open>str(e)\<close> gives. Only subclasses of
  \<open>Exception\<close> are modelled, which is what every \<open>except Exception\<close> and bare
  \<open>except\<close> of the sources is written for.
\<close>

datatype exn_class =
    PDFInfoNotInstalledError | PDFSyntaxError | ValueError | FileNotFoundError
  | TimeoutExpired | ZeroDivisionError | KeyError | AttributeError | OtherError string

datatype exn = Exn (exn_class: exn_class) (exn_msg: string)

text \<open>
  A \<open>dict\<close> is an association list in insertion order with distinct keys:
  \<open>d[k] = v\<close> is \<^const>\<open>AList.update\<close> (replace in place, or append), \<open>d.get(k, dflt)\<close>
  and \<open>d[k]\<close> are the two lookups below, the second raising \<open>KeyError\<close>.
\<close>

definition dict_get :: "('k \<times> 'v) list \<Rightarrow> 'k \<Rightarrow> 'v \<Rightarrow> 'v" where
  "dict_get d k dflt = (case map_of d k of None \<Rightarrow> dflt | Some v \<Rightarrow> v)"

definition dict_getitem :: "(string \<times> 'v) list \<Rightarrow> string \<Rightarrow> exn + 'v" where
  "dict_getitem d k = (case map_of d k of None \<Rightarrow> Inl (Exn KeyError k) | Some v \<Rightarrow> Inr v)"

text \<open>\<open>str(n)\<close> for an \<open>int\<close>: the decimal digits, with a minus sign below zero.\<close>

fun str_nat :: "nat \<Rightarrow> string" where
  "str_nat n =
     (if n < 10 then [''0123456789'' ! n]
      else str_nat (n div 10) @ [''0123456789'' ! (n mod 10)])"

declare str_nat.simps [simp del]

definition str_int :: "int \<Rightarrow> string" where
  "str_int i = (if i < 0 then ''-'' @ str_nat (nat (- i)) else str_nat (nat i))"

text \<open>
  What the program does to the outside world is kept as a trace of events, in the order
  they happen: the calls of the transcription method, the results written into the batch
  dictionary, the calls of the progress callback and the sleeps.
\<close>

datatype event =
    Called nat
  | Recorded nat string
  | Progress nat nat
  | Slept real

section \<open>claude\_ocr.py\<close>

subsection \<open>The instruction texts (lines 55--79) and the two fixed replies\<close>

definition prompt_general :: string where
  "prompt_general =
     [CHR 0xEC, CHR 0x9D, CHR 0xB4] @ '' '' @
     [CHR 0xEC, CHR 0x9D, CHR 0xB4, CHR 0xEB, CHR 0xAF, CHR 0xB8, CHR 0xEC, CHR 0xA7,
     CHR 0x80, CHR 0xEC, CHR 0x97, CHR 0x90] @ '' '' @
     [CHR 0xED, CHR 0x8F, CHR 0xAC, CHR 0xED, CHR 0x95, CHR 0xA8, CHR 0xEB, CHR 0x90,
     CHR 0x9C] @ '' '' @ [CHR 0xEB, CHR 0xAA, CHR 0xA8, CHR 0xEB, CHR 0x93, CHR 0xA0] @
     '' '' @
     [CHR 0xED, CHR 0x85, CHR 0x8D, CHR 0xEC, CHR 0x8A, CHR 0xA4, CHR 0xED, CHR 0x8A,
     CHR 0xB8, CHR 0xEB, CHR 0xA5, CHR 0xBC] @ '' '' @
     [CHR 0xEC, CHR 0xA0, CHR 0x95, CHR 0xED, CHR 0x99, CHR 0x95, CHR 0xED, CHR 0x9E,
     CHR 0x88] @ '' '' @
     [CHR 0xEC, CHR 0xB6, CHR 0x94, CHR 0xEC, CHR 0xB6, CHR 0x9C, CHR 0xED, CHR 0x95,
     CHR 0xB4] @ '' '' @
     [CHR 0xEC, CHR 0xA3, CHR 0xBC, CHR 0xEC, CHR 0x84, CHR 0xB8, CHR 0xEC, CHR 0x9A,
     CHR 0x94] @ ''.'' @
     [CHR 0x0A, CHR 0xEB, CHR 0x8B, CHR 0xA4, CHR 0xEC, CHR 0x9D, CHR 0x8C] @ '' '' @
     [CHR 0xEC, CHR 0x82, CHR 0xAC, CHR 0xED, CHR 0x95, CHR 0xAD, CHR 0xEC, CHR 0x9D,
     CHR 0x84] @ '' '' @
     [CHR 0xEC, CHR 0xA7, CHR 0x80, CHR 0xEC, CHR 0xBC, CHR 0x9C, CHR 0xEC, CHR 0xA3,
     CHR 0xBC, CHR 0xEC, CHR 0x84, CHR 0xB8, CHR 0xEC, CHR 0x9A, CHR 0x94] @ '':'' @
     [CHR 0x0A] @ ''- '' @
     [CHR 0xEC, CHR 0x9B, CHR 0x90, CHR 0xEB, CHR 0xB3, CHR 0xB8, CHR 0xEC, CHR 0x9D,
     CHR 0x98] @ '' '' @
     [CHR 0xEC, CHR 0xA4, CHR 0x84, CHR 0xEB, CHR 0xB0, CHR 0x94, CHR 0xEA, CHR 0xBF,
     CHR 0x88, CHR 0xEA, CHR 0xB3, CHR 0xBC] @ '' '' @
     [CHR 0xEB, CHR 0x8B, CHR 0xA8, CHR 0xEB, CHR 0x9D, CHR 0xBD] @ '' '' @
     [CHR 0xEA, CHR 0xB5, CHR 0xAC, CHR 0xEC, CHR 0xA1, CHR 0xB0, CHR 0xEB, CHR 0xA5,
     CHR 0xBC] @ '' '' @
     [CHR 0xEC, CHR 0xB5, CHR 0x9C, CHR 0xEB, CHR 0x8C, CHR 0x80, CHR 0xED, CHR 0x95,
     CHR 0x9C] @ '' '' @
     [CHR 0xEC, CHR 0x9C, CHR 0xA0, CHR 0xEC, CHR 0xA7, CHR 0x80, CHR 0xED, CHR 0x95,
     CHR 0xB4] @ '' '' @
     [CHR 0xEC, CHR 0xA3, CHR 0xBC, CHR 0xEC, CHR 0x84, CHR 0xB8, CHR 0xEC, CHR 0x9A,
     CHR 0x94, CHR 0x0A] @ ''- '' @
     [CHR 0xEC, CHR 0xA0, CHR 0x9C, CHR 0xEB, CHR 0xAA, CHR 0xA9] @ '', '' @
     [CHR 0xEC, CHR 0x86, CHR 0x8C, CHR 0xEC, CHR 0xA0, CHR 0x9C, CHR 0xEB, CHR 0xAA,
     CHR 0xA9] @ '' '' @ [CHR 0xEB, CHR 0x93, CHR 0xB1, CHR 0xEC, CHR 0x9D, CHR 0x98] @
     '' '' @
     [CHR 0xEA, CHR 0xB3, CHR 0x84, CHR 0xEC, CHR 0xB8, CHR 0xB5, CHR 0xEA, CHR 0xB5,
     CHR 0xAC, CHR 0xEC, CHR 0xA1, CHR 0xB0, CHR 0xEB, CHR 0xA5, CHR 0xBC] @ '' '' @
     [CHR 0xEB, CHR 0xB3, CHR 0xB4, CHR 0xEC, CHR 0xA1, CHR 0xB4, CHR 0xED, CHR 0x95,
     CHR 0xB4] @ '' '' @
     [CHR 0xEC, CHR 0xA3, CHR 0xBC, CHR 0xEC, CHR 0x84, CHR 0xB8, CHR 0xEC, CHR 0x9A,
     CHR 0x94, CHR 0x0A] @ ''- '' @
     [CHR 0xED, CHR 0x8A, CHR 0xB9, CHR 0xEC, CHR 0x88, CHR 0x98, CHR 0xEB, CHR 0xAC,
     CHR 0xB8, CHR 0xEC, CHR 0x9E, CHR 0x90, CHR 0xEB, CHR 0x82, CHR 0x98] @ '' '' @
     [CHR 0xEA, CHR 0xB8, CHR 0xB0, CHR 0xED, CHR 0x98, CHR 0xB8, CHR 0xEB, CHR 0x8F,
     CHR 0x84] @ '' '' @
     [CHR 0xEC, CHR 0xA0, CHR 0x95, CHR 0xED, CHR 0x99, CHR 0x95, CHR 0xED, CHR 0x9E,
     CHR 0x88] @ '' '' @
     [CHR 0xED, CHR 0x8F, CHR 0xAC, CHR 0xED, CHR 0x95, CHR 0xA8, CHR 0xED, CHR 0x95,
     CHR 0xB4] @ '' '' @
     [CHR 0xEC, CHR 0xA3, CHR 0xBC, CHR 0xEC, CHR 0x84, CHR 0xB8, CHR 0xEC, CHR 0x9A,
     CHR 0x94, CHR 0x0A] @ ''- '' @
     [CHR 0xED, CHR 0x91, CHR 0x9C, CHR 0xEA, CHR 0xB0, CHR 0x80] @ '' '' @
     [CHR 0xEC, CHR 0x9E, CHR 0x88, CHR 0xEB, CHR 0x8B, CHR 0xA4, CHR 0xEB, CHR 0xA9,
     CHR 0xB4] @ '' '' @ [CHR 0xED, CHR 0x91, CHR 0x9C] @ '' '' @
     [CHR 0xED, CHR 0x98, CHR 0x95, CHR 0xED, CHR 0x83, CHR 0x9C, CHR 0xEB, CHR 0xA1,
     CHR 0x9C] @ '' '' @
     [CHR 0xEC, CHR 0xA0, CHR 0x95, CHR 0xEB, CHR 0xA6, CHR 0xAC, CHR 0xED, CHR 0x95,
     CHR 0xB4] @ '' '' @
     [CHR 0xEC, CHR 0xA3, CHR 0xBC, CHR 0xEC, CHR 0x84, CHR 0xB8, CHR 0xEC, CHR 0x9A,
     CHR 0x94, CHR 0x0A] @ ''- '' @
     [CHR 0xED, CHR 0x95, CHR 0x9C, CHR 0xEA, CHR 0xB8, CHR 0x80, CHR 0xEA, CHR 0xB3,
     CHR 0xBC] @ '' '' @
     [CHR 0xEC, CHR 0x98, CHR 0x81, CHR 0xEC, CHR 0x96, CHR 0xB4, CHR 0xEA, CHR 0xB0,
     CHR 0x80] @ '' '' @ [CHR 0xEC, CHR 0x84, CHR 0x9E, CHR 0xEC, CHR 0x97, CHR 0xAC] @
     '' '' @
     [CHR 0xEC, CHR 0x9E, CHR 0x88, CHR 0xEC, CHR 0x96, CHR 0xB4, CHR 0xEB, CHR 0x8F,
     CHR 0x84] @ '' '' @ [CHR 0xEB, CHR 0xAA, CHR 0xA8, CHR 0xEB, CHR 0x91, CHR 0x90] @
     '' '' @
     [CHR 0xEC, CHR 0xA0, CHR 0x95, CHR 0xED, CHR 0x99, CHR 0x95, CHR 0xED, CHR 0x9E,
     CHR 0x88] @ '' '' @
     [CHR 0xEC, CHR 0xB6, CHR 0x94, CHR 0xEC, CHR 0xB6, CHR 0x9C, CHR 0xED, CHR 0x95,
     CHR 0xB4] @ '' '' @
     [CHR 0xEC, CHR 0xA3, CHR 0xBC, CHR 0xEC, CHR 0x84, CHR 0xB8, CHR 0xEC, CHR 0x9A,
     CHR 0x94]"

definition prompt_table :: string where
  "prompt_table =
     [CHR 0xEC, CHR 0x9D, CHR 0xB4] @ '' '' @
     [CHR 0xEC, CHR 0x9D, CHR 0xB4, CHR 0xEB, CHR 0xAF, CHR 0xB8, CHR 0xEC, CHR 0xA7,
     CHR 0x80, CHR 0xEC, CHR 0x9D, CHR 0x98] @ '' '' @
     [CHR 0xED, CHR 0x91, CHR 0x9C, CHR 0xEB, CHR 0xA5, CHR 0xBC] @ '' '' @
     [CHR 0xEC, CHR 0xA0, CHR 0x95, CHR 0xED, CHR 0x99, CHR 0x95, CHR 0xED, CHR 0x9E,
     CHR 0x88] @ '' '' @
     [CHR 0xEC, CHR 0xB6, CHR 0x94, CHR 0xEC, CHR 0xB6, CHR 0x9C, CHR 0xED, CHR 0x95,
     CHR 0xB4] @ '' '' @
     [CHR 0xEC, CHR 0xA3, CHR 0xBC, CHR 0xEC, CHR 0x84, CHR 0xB8, CHR 0xEC, CHR 0x9A,
     CHR 0x94] @ ''.'' @ [CHR 0x0A] @ ''- '' @
     [CHR 0xED, CHR 0x96, CHR 0x89, CHR 0xEA, CHR 0xB3, CHR 0xBC] @ '' '' @
     [CHR 0xEC, CHR 0x97, CHR 0xB4] @ '' '' @
     [CHR 0xEA, CHR 0xB5, CHR 0xAC, CHR 0xEC, CHR 0xA1, CHR 0xB0, CHR 0xEB, CHR 0xA5,
     CHR 0xBC] @ '' '' @
     [CHR 0xEB, CHR 0xAA, CHR 0x85, CHR 0xED, CHR 0x99, CHR 0x95, CHR 0xED, CHR 0x9E,
     CHR 0x88] @ '' '' @
     [CHR 0xEA, CHR 0xB5, CHR 0xAC, CHR 0xEB, CHR 0xB6, CHR 0x84, CHR 0xED, CHR 0x95,
     CHR 0xB4] @ '' '' @
     [CHR 0xEC, CHR 0xA3, CHR 0xBC, CHR 0xEC, CHR 0x84, CHR 0xB8, CHR 0xEC, CHR 0x9A,
     CHR 0x94, CHR 0x0A] @ ''- '' @ [CHR 0xEC, CHR 0x85, CHR 0x80] @ '' '' @
     [CHR 0xEB, CHR 0xB3, CHR 0x91, CHR 0xED, CHR 0x95, CHR 0xA9, CHR 0xEC, CHR 0x9D,
     CHR 0xB4] @ '' '' @
     [CHR 0xEC, CHR 0x9E, CHR 0x88, CHR 0xEB, CHR 0x8B, CHR 0xA4, CHR 0xEB, CHR 0xA9,
     CHR 0xB4] @ '' '' @
     [CHR 0xED, CHR 0x91, CHR 0x9C, CHR 0xEC, CHR 0x8B, CHR 0x9C, CHR 0xED, CHR 0x95,
     CHR 0xB4] @ '' '' @
     [CHR 0xEC, CHR 0xA3, CHR 0xBC, CHR 0xEC, CHR 0x84, CHR 0xB8, CHR 0xEC, CHR 0x9A,
     CHR 0x94, CHR 0x0A] @ ''- '' @
     [CHR 0xEC, CHR 0x88, CHR 0xAB, CHR 0xEC, CHR 0x9E, CHR 0x90] @ '' '' @
     [CHR 0xEB, CHR 0x8D, CHR 0xB0, CHR 0xEC, CHR 0x9D, CHR 0xB4, CHR 0xED, CHR 0x84,
     CHR 0xB0, CHR 0xEB, CHR 0x8A, CHR 0x94] @ '' '' @
     [CHR 0xEC, CHR 0xA0, CHR 0x95, CHR 0xED, CHR 0x99, CHR 0x95, CHR 0xED, CHR 0x9E,
     CHR 0x88] @ '' '' @
     [CHR 0xEB, CHR 0xB3, CHR 0xB4, CHR 0xEC, CHR 0xA1, CHR 0xB4, CHR 0xED, CHR 0x95,
     CHR 0xB4] @ '' '' @
     [CHR 0xEC, CHR 0xA3, CHR 0xBC, CHR 0xEC, CHR 0x84, CHR 0xB8, CHR 0xEC, CHR 0x9A,
     CHR 0x94, CHR 0x0A] @ ''- '' @
     [CHR 0xED, CHR 0x91, CHR 0x9C, CHR 0xEC, CHR 0x9D, CHR 0x98] @ '' '' @
     [CHR 0xED, CHR 0x97, CHR 0xA4, CHR 0xEB, CHR 0x8D, CHR 0x94, CHR 0xEC, CHR 0x99,
     CHR 0x80] @ '' '' @
     [CHR 0xEB, CHR 0x82, CHR 0xB4, CHR 0xEC, CHR 0x9A, CHR 0xA9, CHR 0xEC, CHR 0x9D,
     CHR 0x84] @ '' '' @
     [CHR 0xEA, CHR 0xB5, CHR 0xAC, CHR 0xEB, CHR 0xB6, CHR 0x84, CHR 0xED, CHR 0x95,
     CHR 0xB4] @ '' '' @
     [CHR 0xEC, CHR 0xA3, CHR 0xBC, CHR 0xEC, CHR 0x84, CHR 0xB8, CHR 0xEC, CHR 0x9A,
     CHR 0x94]"

definition prompt_handwritten :: string where
  "prompt_handwritten =
     [CHR 0xEC, CHR 0x9D, CHR 0xB4] @ '' '' @
     [CHR 0xEC, CHR 0x86, CHR 0x90, CHR 0xEA, CHR 0xB8, CHR 0x80, CHR 0xEC, CHR 0x94,
     CHR 0xA8] @ '' '' @
     [CHR 0xEB, CHR 0xAC, CHR 0xB8, CHR 0xEC, CHR 0x84, CHR 0x9C, CHR 0xEC, CHR 0x9D,
     CHR 0x98] @ '' '' @
     [CHR 0xED, CHR 0x85, CHR 0x8D, CHR 0xEC, CHR 0x8A, CHR 0xA4, CHR 0xED, CHR 0x8A,
     CHR 0xB8, CHR 0xEB, CHR 0xA5, CHR 0xBC] @ '' '' @
     [CHR 0xEC, CHR 0xB6, CHR 0x94, CHR 0xEC, CHR 0xB6, CHR 0x9C, CHR 0xED, CHR 0x95,
     CHR 0xB4] @ '' '' @
     [CHR 0xEC, CHR 0xA3, CHR 0xBC, CHR 0xEC, CHR 0x84, CHR 0xB8, CHR 0xEC, CHR 0x9A,
     CHR 0x94] @ ''.'' @ [CHR 0x0A] @ ''- '' @
     [CHR 0xEC, CHR 0x9D, CHR 0xBD, CHR 0xEA, CHR 0xB8, CHR 0xB0] @ '' '' @
     [CHR 0xEC, CHR 0x96, CHR 0xB4, CHR 0xEB, CHR 0xA0, CHR 0xA4, CHR 0xEC, CHR 0x9A,
     CHR 0xB4] @ '' '' @
     [CHR 0xEB, CHR 0xB6, CHR 0x80, CHR 0xEB, CHR 0xB6, CHR 0x84, CHR 0xEC, CHR 0x9D,
     CHR 0x80] @ '' ['' @
     [CHR 0xEB, CHR 0xB6, CHR 0x88, CHR 0xEB, CHR 0xAA, CHR 0x85, CHR 0xED, CHR 0x99,
     CHR 0x95] @ ''] '' @
     [CHR 0xED, CHR 0x91, CHR 0x9C, CHR 0xEC, CHR 0x8B, CHR 0x9C, CHR 0xED, CHR 0x95,
     CHR 0xB4] @ '' '' @
     [CHR 0xEC, CHR 0xA3, CHR 0xBC, CHR 0xEC, CHR 0x84, CHR 0xB8, CHR 0xEC, CHR 0x9A,
     CHR 0x94, CHR 0x0A] @ ''- '' @
     [CHR 0xEC, CHR 0xB6, CHR 0x94, CHR 0xEC, CHR 0xA0, CHR 0x95, CHR 0xEB, CHR 0x90,
     CHR 0x98, CHR 0xEB, CHR 0x8A, CHR 0x94] @ '' '' @
     [CHR 0xEB, CHR 0x8B, CHR 0xA8, CHR 0xEC, CHR 0x96, CHR 0xB4, CHR 0xEB, CHR 0x8A,
     CHR 0x94] @ '' ['' @ [CHR 0xEC, CHR 0xB6, CHR 0x94, CHR 0xEC, CHR 0xA0, CHR 0x95] @
     '': '' @ [CHR 0xEB, CHR 0x8B, CHR 0xA8, CHR 0xEC, CHR 0x96, CHR 0xB4] @ ''] '' @
     [CHR 0xED, CHR 0x98, CHR 0x95, CHR 0xED, CHR 0x83, CHR 0x9C, CHR 0xEB, CHR 0xA1,
     CHR 0x9C] @ '' '' @
     [CHR 0xED, CHR 0x91, CHR 0x9C, CHR 0xEC, CHR 0x8B, CHR 0x9C, CHR 0xED, CHR 0x95,
     CHR 0xB4] @ '' '' @
     [CHR 0xEC, CHR 0xA3, CHR 0xBC, CHR 0xEC, CHR 0x84, CHR 0xB8, CHR 0xEC, CHR 0x9A,
     CHR 0x94, CHR 0x0A] @ ''- '' @
     [CHR 0xEA, CHR 0xB0, CHR 0x80, CHR 0xEB, CHR 0x8A, CHR 0xA5, CHR 0xED, CHR 0x95,
     CHR 0x9C] @ '' '' @ [CHR 0xED, CHR 0x95, CHR 0x9C] @ '' '' @
     [CHR 0xEC, CHR 0xA0, CHR 0x95, CHR 0xED, CHR 0x99, CHR 0x95, CHR 0xED, CHR 0x95,
     CHR 0x98, CHR 0xEA, CHR 0xB2, CHR 0x8C] @ '' '' @
     [CHR 0xEC, CHR 0x9D, CHR 0xBD, CHR 0xEC, CHR 0x96, CHR 0xB4, CHR 0xEC, CHR 0xA3,
     CHR 0xBC, CHR 0xEC, CHR 0x84, CHR 0xB8, CHR 0xEC, CHR 0x9A, CHR 0x94]"

definition prompt_form :: string where
  "prompt_form =
     [CHR 0xEC, CHR 0x9D, CHR 0xB4] @ '' '' @
     [CHR 0xEC, CHR 0x96, CHR 0x91, CHR 0xEC, CHR 0x8B, CHR 0x9D] @ ''/'' @
     [CHR 0xED, CHR 0x8F, CHR 0xBC, CHR 0xEC, CHR 0x9D, CHR 0x98] @ '' '' @
     [CHR 0xEB, CHR 0xAA, CHR 0xA8, CHR 0xEB, CHR 0x93, CHR 0xA0] @ '' '' @
     [CHR 0xED, CHR 0x85, CHR 0x8D, CHR 0xEC, CHR 0x8A, CHR 0xA4, CHR 0xED, CHR 0x8A,
     CHR 0xB8, CHR 0xEB, CHR 0xA5, CHR 0xBC] @ '' '' @
     [CHR 0xEC, CHR 0xB6, CHR 0x94, CHR 0xEC, CHR 0xB6, CHR 0x9C, CHR 0xED, CHR 0x95,
     CHR 0xB4] @ '' '' @
     [CHR 0xEC, CHR 0xA3, CHR 0xBC, CHR 0xEC, CHR 0x84, CHR 0xB8, CHR 0xEC, CHR 0x9A,
     CHR 0x94] @ ''.'' @ [CHR 0x0A] @ ''- '' @
     [CHR 0xED, CHR 0x95, CHR 0x84, CHR 0xEB, CHR 0x93, CHR 0x9C, CHR 0xEB, CHR 0xAA,
     CHR 0x85, CHR 0xEA, CHR 0xB3, CHR 0xBC] @ '' '' @
     [CHR 0xEC, CHR 0x9E, CHR 0x85, CHR 0xEB, CHR 0xA0, CHR 0xA5, CHR 0xEB, CHR 0x90,
     CHR 0x9C] @ '' '' @ [CHR 0xEA, CHR 0xB0, CHR 0x92, CHR 0xEC, CHR 0x9D, CHR 0x84] @
     '' '' @
     [CHR 0xEA, CHR 0xB5, CHR 0xAC, CHR 0xEB, CHR 0xB6, CHR 0x84, CHR 0xED, CHR 0x95,
     CHR 0xB4] @ '' '' @
     [CHR 0xEC, CHR 0xA3, CHR 0xBC, CHR 0xEC, CHR 0x84, CHR 0xB8, CHR 0xEC, CHR 0x9A,
     CHR 0x94, CHR 0x0A] @ ''- '' @
     [CHR 0xEC, CHR 0xB2, CHR 0xB4, CHR 0xED, CHR 0x81, CHR 0xAC, CHR 0xEB, CHR 0xB0,
     CHR 0x95, CHR 0xEC, CHR 0x8A, CHR 0xA4, CHR 0xEB, CHR 0x82, CHR 0x98] @ '' '' @
     [CHR 0xEC, CHR 0x84, CHR 0xA0, CHR 0xED, CHR 0x83, CHR 0x9D] @ '' '' @
     [CHR 0xED, CHR 0x95, CHR 0xAD, CHR 0xEB, CHR 0xAA, CHR 0xA9, CHR 0xEC, CHR 0x9D,
     CHR 0x98] @ '' '' @
     [CHR 0xEC, CHR 0x83, CHR 0x81, CHR 0xED, CHR 0x83, CHR 0x9C, CHR 0xEB, CHR 0x8F,
     CHR 0x84] @ '' '' @
     [CHR 0xED, CHR 0x91, CHR 0x9C, CHR 0xEC, CHR 0x8B, CHR 0x9C, CHR 0xED, CHR 0x95,
     CHR 0xB4] @ '' '' @
     [CHR 0xEC, CHR 0xA3, CHR 0xBC, CHR 0xEC, CHR 0x84, CHR 0xB8, CHR 0xEC, CHR 0x9A,
     CHR 0x94, CHR 0x0A] @ ''- '' @
     [CHR 0xEC, CHR 0x96, CHR 0x91, CHR 0xEC, CHR 0x8B, CHR 0x9D, CHR 0xEC, CHR 0x9D,
     CHR 0x98] @ '' '' @
     [CHR 0xEA, CHR 0xB5, CHR 0xAC, CHR 0xEC, CHR 0xA1, CHR 0xB0, CHR 0xEB, CHR 0xA5,
     CHR 0xBC] @ '' '' @
     [CHR 0xEC, CHR 0x9C, CHR 0xA0, CHR 0xEC, CHR 0xA7, CHR 0x80, CHR 0xED, CHR 0x95,
     CHR 0xB4] @ '' '' @
     [CHR 0xEC, CHR 0xA3, CHR 0xBC, CHR 0xEC, CHR 0x84, CHR 0xB8, CHR 0xEC, CHR 0x9A,
     CHR 0x94]"

text \<open>The reply for a response without content (line 137) and the marker prefix (lines 141, 193).\<close>

definition no_text_sentinel :: string where
  "no_text_sentinel =
     [CHR 0xED, CHR 0x85, CHR 0x8D, CHR 0xEC, CHR 0x8A, CHR 0xA4, CHR 0xED, CHR 0x8A,
     CHR 0xB8, CHR 0xEB, CHR 0xA5, CHR 0xBC] @ '' '' @
     [CHR 0xEC, CHR 0xB6, CHR 0x94, CHR 0xEC, CHR 0xB6, CHR 0x9C, CHR 0xED, CHR 0x95,
     CHR 0xA0] @ '' '' @ [CHR 0xEC, CHR 0x88, CHR 0x98] @ '' '' @
     [CHR 0xEC, CHR 0x97, CHR 0x86, CHR 0xEC, CHR 0x8A, CHR 0xB5, CHR 0xEB, CHR 0x8B,
     CHR 0x88, CHR 0xEB, CHR 0x8B, CHR 0xA4] @ ''.''"

definition error_marker_prefix :: string where
  "error_marker_prefix =
     [CHR 0xEC, CHR 0x98, CHR 0xA4, CHR 0xEB, CHR 0xA5, CHR 0x98] @ '' '' @
     [CHR 0xEB, CHR 0xB0, CHR 0x9C, CHR 0xEC, CHR 0x83, CHR 0x9D] @ '': ''"

subsection \<open>get\_ocr\_prompt (lines 45--80)\<close>

definition prompts :: "(string \<times> string) list" where
  "prompts =
     [(''general'', prompt_general), (''table'', prompt_table),
      (''handwritten'', prompt_handwritten), (''form'', prompt_form)]"

text \<open>
  \<open>return prompts.get(document_type, prompts["general"])\<close>: the default is looked up
  first, with the indexing that raises on a missing key.
\<close>

definition get_ocr_prompt :: "string \<Rightarrow> exn + string" where
  "get_ocr_prompt document_type =
     (case dict_getitem prompts ''general'' of
        Inl e \<Rightarrow> Inl e
      | Inr dflt \<Rightarrow> Inr (dict_get prompts document_type dflt))"

subsection \<open>extract\_text\_from\_image (lines 82--141)\<close>

text \<open>
  The request sent to the API and the response read back. A content block of the response
  either is a text block or has no \<open>text\<close> attribute, in which case \<open>.text\<close> raises
  \<open>AttributeError\<close>.
\<close>

record request =
  model :: string
  max_tokens :: nat
  media_type :: string
  data :: string
  instruction :: string

datatype content_block = TextBlock string | NonTextBlock

text \<open>
  The collaborators of the class: reading a file, the library functions
  \<open>base64.b64encode\<close> and \<open>Path(p).suffix.lower()\<close>, and the API call.
\<close>

record ocr_env =
  read_file :: "string \<Rightarrow> exn + string"
  b64encode :: "string \<Rightarrow> string"
  suffix_lower :: "string \<Rightarrow> string"
  messages_create :: "request \<Rightarrow> exn + content_block list"

text \<open>image\_to\_base64 (lines 28--43): a failure is logged and raised again.\<close>

definition image_to_base64 :: "ocr_env \<Rightarrow> string \<Rightarrow> exn + string" where
  "image_to_base64 env image_path =
     (case read_file env image_path of
        Inl e \<Rightarrow> Inl e
      | Inr bytes \<Rightarrow> Inr (b64encode env bytes))"

definition mime_type_map :: "(string \<times> string) list" where
  "mime_type_map =
     [(''.png'', ''image/png''), (''.jpg'', ''image/jpeg''), (''.jpeg'', ''image/jpeg''),
      (''.gif'', ''image/gif''), (''.webp'', ''image/webp'')]"

definition block_text :: "content_block \<Rightarrow> exn + string" where
  "block_text b =
     (case b of
        TextBlock t \<Rightarrow> Inr t
      | NonTextBlock \<Rightarrow> Inl (Exn AttributeError ''object has no attribute text''))"

text \<open>The request of lines 109--131, for a MIME type, an encoded image and a prompt.\<close>

definition create_request :: "string \<Rightarrow> string \<Rightarrow> string \<Rightarrow> request" where
  "create_request mime_type base64_image prompt =
     \<lparr>model = ''claude-3-5-sonnet-20241022'', max_tokens = 4000, media_type = mime_type,
      data = base64_image, instruction = prompt\<rparr>"

text \<open>The body of the \<open>try\<close> (lines 94--137).\<close>

definition extract_text_try :: "ocr_env \<Rightarrow> string \<Rightarrow> string \<Rightarrow> exn + string" where
  "extract_text_try env image_path document_type =
     (case image_to_base64 env image_path of
        Inl e \<Rightarrow> Inl e
      | Inr base64_image \<Rightarrow>
          let file_extension = suffix_lower env image_path;
              mime_type = dict_get mime_type_map file_extension ''image/png''
          in (case get_ocr_prompt document_type of
                Inl e \<Rightarrow> Inl e
              | Inr prompt \<Rightarrow>
                  (case messages_create env (create_request mime_type base64_image prompt) of
                     Inl e \<Rightarrow> Inl e
                   | Inr content \<Rightarrow>
                       (case content of
                          [] \<Rightarrow> Inr no_text_sentinel
                        | b # _ \<Rightarrow> block_text b))))"

text \<open>The \<open>except Exception as e\<close> (lines 139--141) turns the exception into a reply.\<close>

definition extract_text_from_image :: "ocr_env \<Rightarrow> string \<Rightarrow> string \<Rightarrow> exn + string" where
  "extract_text_from_image env image_path document_type =
     (case extract_text_try env image_path document_type of
        Inl e \<Rightarrow> Inr (error_marker_prefix @ exn_msg e)
      | Inr t \<Rightarrow> Inr t)"

subsection \<open>extract\_text\_batch (lines 143--199)\<close>

text \<open>
  One entry of the result dictionary (lines 172--177 and 191--196). The key \<open>'text'\<close> is
  the field \<open>page_text\<close>.
\<close>

record page_result =
  page :: int
  page_text :: string
  status :: string
  image_path :: string

type_synonym results = "(nat \<times> page_result) list"

type_synonym batch_state = "results \<times> event list"

text \<open>
  \<open>self.extract_text_from_image\<close> is looked up on the object at each call, so the batch
  and the retry loop are written over the method they call: \<open>transcribe k p d\<close> is the
  outcome of its \<open>k\<close>-th call in the loop (0-based), on path \<open>p\<close> and document type
  \<open>d\<close>. The progress callback returns (\<open>None\<close>) or raises.
\<close>

type_synonym transcribe = "nat \<Rightarrow> string \<Rightarrow> string \<Rightarrow> exn + string"

type_synonym callback = "nat \<Rightarrow> nat \<Rightarrow> exn option"

text \<open>\<open>time.sleep\<close> raises \<open>ValueError\<close> on a negative length and returns otherwise.\<close>

definition time_sleep :: "real \<Rightarrow> exn option" where
  "time_sleep secs =
     (if secs < 0 then Some (Exn ValueError ''sleep length must be non-negative'') else None)"

text \<open>
  The body of the \<open>try\<close> for page \<open>i\<close> (lines 169--187): the exception that leaves it, if
  any, and the dictionary and trace at that moment.
\<close>

definition batch_try ::
  "transcribe \<Rightarrow> string \<Rightarrow> real \<Rightarrow> callback option \<Rightarrow> nat \<Rightarrow> nat \<Rightarrow> string \<Rightarrow>
   batch_state \<Rightarrow> exn option \<times> batch_state" where
  "batch_try extract document_type delay progress_callback total_n i path st =
     (case st of (results, trace) \<Rightarrow>
        (case extract i path document_type of
           Inl e \<Rightarrow> (Some e, (results, trace @ [Called i]))
         | Inr t \<Rightarrow>
             let results1 =
                   AList.update i
                     \<lparr>page = int i + 1, page_text = t, status = ''success'',
                      image_path = path\<rparr> results;
                 trace1 = trace @ [Called i, Recorded i ''success'']
             in (case progress_callback of
                   Some cb \<Rightarrow>
                     (case cb (i + 1) total_n of
                        Some e \<Rightarrow> (Some e, (results1, trace1 @ [Progress (i + 1) total_n]))
                      | None \<Rightarrow>
                          if int i < int total_n - 1 then
                            (case time_sleep delay of
                               Some e \<Rightarrow> (Some e, (results1, trace1 @ [Progress (i + 1) total_n]))
                             | None \<Rightarrow>
                                 (None, (results1,
                                         trace1 @ [Progress (i + 1) total_n, Slept delay])))
                          else (None, (results1, trace1 @ [Progress (i + 1) total_n])))
                 | None \<Rightarrow>
                     if int i < int total_n - 1 then
                       (case time_sleep delay of
                          Some e \<Rightarrow> (Some e, (results1, trace1))
                        | None \<Rightarrow> (None, (results1, trace1 @ [Slept delay])))
                     else (None, (results1, trace1)))))"

text \<open>The \<open>except Exception as e\<close> for page \<open>i\<close> (lines 189--196).\<close>

definition batch_except :: "exn \<Rightarrow> nat \<Rightarrow> string \<Rightarrow> batch_state \<Rightarrow> batch_state" where
  "batch_except e i path st =
     (case st of (results, trace) \<Rightarrow>
        (AList.update i
           \<lparr>page = int i + 1, page_text = error_marker_prefix @ exn_msg e,
            status = ''error'', image_path = path\<rparr> results,
         trace @ [Recorded i ''error'']))"

text \<open>The whole \<open>try\<close> statement for page \<open>i\<close>: the body, and the handler when it raises.\<close>

definition batch_page ::
  "transcribe \<Rightarrow> string \<Rightarrow> real \<Rightarrow> callback option \<Rightarrow> nat \<Rightarrow> nat \<Rightarrow> string \<Rightarrow>
   batch_state \<Rightarrow> batch_state" where
  "batch_page extract document_type delay progress_callback total_n i path st =
     (case batch_try extract document_type delay progress_callback total_n i path st of
        (None, st') \<Rightarrow> st'
      | (Some e, st') \<Rightarrow> batch_except e i path st')"

text \<open>The \<open>for i, image_path in enumerate(image_paths)\<close> loop.\<close>

fun batch_loop ::
  "transcribe \<Rightarrow> string \<Rightarrow> real \<Rightarrow> callback option \<Rightarrow> nat \<Rightarrow> (nat \<times> string) list \<Rightarrow>
   batch_state \<Rightarrow> batch_state" where
  "batch_loop extract document_type delay progress_callback total_n [] st = st"
| "batch_loop extract document_type delay progress_callback total_n ((i, path) # rest) st =
     batch_loop extract document_type delay progress_callback total_n rest
       (batch_page extract document_type delay progress_callback total_n i path st)"

definition extract_text_batch ::
  "transcribe \<Rightarrow> string list \<Rightarrow> string \<Rightarrow> real \<Rightarrow> callback option \<Rightarrow> batch_state" where
  "extract_text_batch extract image_paths document_type delay progress_callback =
     batch_loop extract document_type delay progress_callback (length image_paths)
       (List.enumerate 0 image_paths) ([], [])"

text \<open>The method of the class itself: every call goes to \<^const>\<open>extract_text_from_image\<close>.\<close>

definition own_transcribe :: "ocr_env \<Rightarrow> transcribe" where
  "own_transcribe env k path document_type = extract_text_from_image env path document_type"

subsection \<open>extract\_with\_retry (lines 201--228)\<close>

text \<open>
  The loop over \<open>range(max_retries)\<close>. Leaving the loop without a \<open>return\<close> gives Python's
  \<open>None\<close>, here \<open>Inr None\<close>. The sleep of line 228 has a non-negative length and returns.
\<close>

fun retry_loop ::
  "transcribe \<Rightarrow> string \<Rightarrow> string \<Rightarrow> int \<Rightarrow> nat list \<Rightarrow> event list \<Rightarrow>
   (exn + string option) \<times> event list" where
  "retry_loop extract path document_type max_retries [] trace = (Inr None, trace)"
| "retry_loop extract path document_type max_retries (attempt # rest) trace =
     (case extract attempt path document_type of
        Inr t \<Rightarrow> (Inr (Some t), trace @ [Called attempt])
      | Inl e \<Rightarrow>
          if int attempt = max_retries - 1 then (Inl e, trace @ [Called attempt])
          else retry_loop extract path document_type max_retries rest
                 (trace @ [Called attempt, Slept (2 ^ attempt)]))"

definition extract_with_retry ::
  "transcribe \<Rightarrow> string \<Rightarrow> string \<Rightarrow> int \<Rightarrow> (exn + string option) \<times> event list" where
  "extract_with_retry extract path document_type max_retries =
     retry_loop extract path document_type max_retries [0..<nat max_retries] []"

text \<open>Every entry of a result dictionary is tagged \<open>success\<close> or \<open>error\<close>.\<close>

definition tagged :: "results \<Rightarrow> bool" where
  "tagged res = (\<forall>x \<in> set res. status (snd x) = ''success'' \<or> status (snd x) = ''error'')"

text \<open>
  The events a progress report is about: a result recorded as \<open>success\<close>, and a call of the
  progress callback.
\<close>

definition success_or_progress :: "event \<Rightarrow> bool" where
  "success_or_progress ev =
     (case ev of Recorded i s \<Rightarrow> s = ''success'' | Progress a b \<Rightarrow> True | _ \<Rightarrow> False)"

section \<open>pdf\_converter.py\<close>

subsection \<open>Python's float arithmetic on the values of lines 100--102\<close>

text \<open>
  A Python \<open>float\<close> is an IEEE 754 binary64 number; the finite ones are rationals. Line 100
  divides two \<open>int\<close>s and lines 101--102 multiply an \<open>int\<close> by a \<open>float\<close>: both results
  are the exact quotient or product rounded to the nearest binary64 number, ties to the
  even significand. \<open>round_double\<close> is this rounding for a positive rational in the normal
  range (no overflow, no subnormal result), which covers every quotient \<open>1000 / n\<close> and
  product of an image dimension below \<open>2 ^ 31\<close>.
\<close>

definition pow2 :: "int \<Rightarrow> rat" where
  "pow2 e = (if 0 \<le> e then 2 ^ nat e else 1 / 2 ^ nat (- e))"

text \<open>The exponent of a positive rational: \<open>pow2 (ilog2 x) \<le> x < pow2 (ilog2 x + 1)\<close>.\<close>

definition ilog2 :: "rat \<Rightarrow> int" where
  "ilog2 x =
     (case quotient_of x of (p, q) \<Rightarrow>
        let e = bitlen p - bitlen q in if pow2 e \<le> x then e else e - 1)"

definition round_half_even :: "rat \<Rightarrow> int" where
  "round_half_even y =
     (let f = \<lfloor>y\<rfloor>; r = y - of_int f
      in if r < 1 / 2 then f else if 1 / 2 < r then f + 1 else if even f then f else f + 1)"

definition round_double :: "rat \<Rightarrow> rat" where
  "round_double x =
     (if x \<le> 0 then 0
      else let e = ilog2 x - 52 in of_int (round_half_even (x / pow2 e)) * pow2 e)"

text \<open>\<open>a / b\<close> on two \<open>int\<close>s, \<open>n * x\<close> on an \<open>int\<close> and a \<open>float\<close>, and \<open>int(x)\<close>.\<close>

definition py_truediv :: "nat \<Rightarrow> nat \<Rightarrow> exn + rat" where
  "py_truediv a b =
     (if b = 0 then Inl (Exn ZeroDivisionError ''division by zero'')
      else Inr (round_double (of_nat a / of_nat b)))"

definition py_mul :: "nat \<Rightarrow> rat \<Rightarrow> rat" where
  "py_mul n x = round_double (of_nat n * x)"

definition py_int :: "rat \<Rightarrow> nat" where
  "py_int x = nat \<lfloor>x\<rfloor>"

subsection \<open>Images and the calls into PIL\<close>

text \<open>
  An image is its size, its mode and what has been done to its pixels since it was
  decoded. Each call into PIL returns or raises, as \<open>pil\<close> says for the call site.
\<close>

datatype pil_op = Resize nat nat | Flatten | ConvertRGB | Contrast | Sharpness

record image =
  width :: nat
  height :: nat
  mode :: string
  history :: "pil_op list"

datatype pil_call =
    ResizeCall | NewCall | SplitCall | PasteCall | ConvertCall
  | ContrastCall | ContrastEnhanceCall | SharpnessCall | SharpnessEnhanceCall

type_synonym pil = "pil_call \<Rightarrow> exn option"

subsection \<open>optimize\_image\_for\_ocr (lines 86--128)\<close>

text \<open>
  Each statement of the \<open>try\<close> takes the image the variable \<open>image\<close> is bound to and gives
  the image it is bound to afterwards, or raises and leaves the binding as it was.

  Lines 98--103: the upscaling. \<open>Image.resize\<close> itself refuses an empty size.
\<close>

definition upscale :: "pil \<Rightarrow> image \<Rightarrow> exn + image" where
  "upscale pil img =
     (if width img < 1000 \<or> height img < 1000 then
        (case py_truediv 1000 (width img) of
           Inl e \<Rightarrow> Inl e
         | Inr rw \<Rightarrow>
             (case py_truediv 1000 (height img) of
                Inl e \<Rightarrow> Inl e
              | Inr rh \<Rightarrow>
                  let scale_factor = max rw rh;
                      new_width = py_int (py_mul (width img) scale_factor);
                      new_height = py_int (py_mul (height img) scale_factor)
                  in if new_width = 0 \<or> new_height = 0 then
                       Inl (Exn ValueError ''height and width must be > 0'')
                     else (case pil ResizeCall of
                             Some e \<Rightarrow> Inl e
                           | None \<Rightarrow>
                               Inr (img\<lparr>width := new_width, height := new_height,
                                        history := history img @ [Resize new_width new_height]\<rparr>))))
      else Inr img)"

text \<open>Lines 106--114: the alpha channel is flattened onto white, any other mode converted.\<close>

definition to_rgb :: "pil \<Rightarrow> image \<Rightarrow> exn + image" where
  "to_rgb pil img =
     (if mode img = ''RGBA'' \<or> mode img = ''LA'' then
        (case pil NewCall of
           Some e \<Rightarrow> Inl e
         | None \<Rightarrow>
             (case pil SplitCall of
                Some e \<Rightarrow> Inl e
              | None \<Rightarrow>
                  (case pil PasteCall of
                     Some e \<Rightarrow> Inl e
                   | None \<Rightarrow> Inr (img\<lparr>mode := ''RGB'', history := history img @ [Flatten]\<rparr>))))
      else if mode img \<noteq> ''RGB'' then
        (case pil ConvertCall of
           Some e \<Rightarrow> Inl e
         | None \<Rightarrow> Inr (img\<lparr>mode := ''RGB'', history := history img @ [ConvertRGB]\<rparr>))
      else Inr img)"

text \<open>Lines 117--118 and 121--122: contrast and sharpness.\<close>

definition contrast :: "pil \<Rightarrow> image \<Rightarrow> exn + image" where
  "contrast pil img =
     (case pil ContrastCall of
        Some e \<Rightarrow> Inl e
      | None \<Rightarrow>
          (case pil ContrastEnhanceCall of
             Some e \<Rightarrow> Inl e
           | None \<Rightarrow> Inr (img\<lparr>history := history img @ [Contrast]\<rparr>)))"

definition sharpness :: "pil \<Rightarrow> image \<Rightarrow> exn + image" where
  "sharpness pil img =
     (case pil SharpnessCall of
        Some e \<Rightarrow> Inl e
      | None \<Rightarrow>
          (case pil SharpnessEnhanceCall of
             Some e \<Rightarrow> Inl e
           | None \<Rightarrow> Inr (img\<lparr>history := history img @ [Sharpness]\<rparr>)))"

text \<open>
  The statements run in order; the first one that raises ends the \<open>try\<close>, and the handler
  sees the binding of \<open>image\<close> at that moment.
\<close>

fun run_stmts :: "(image \<Rightarrow> exn + image) list \<Rightarrow> image \<Rightarrow> exn option \<times> image" where
  "run_stmts [] img = (None, img)"
| "run_stmts (s # ss) img =
     (case s img of Inl e \<Rightarrow> (Some e, img) | Inr img' \<Rightarrow> run_stmts ss img')"

text \<open>\<open>return image\<close> at the end of the \<open>try\<close> (line 124) and in the handler (line 128).\<close>

definition optimize_image_for_ocr :: "pil \<Rightarrow> image \<Rightarrow> exn + image" where
  "optimize_image_for_ocr pil img =
     (case run_stmts [upscale pil, to_rgb pil, contrast pil, sharpness pil] img of
        (None, img') \<Rightarrow> Inr img'
      | (Some e, img') \<Rightarrow> Inr img')"

subsection \<open>check\_poppler\_installation (lines 27--59)\<close>

text \<open>
  \<open>subprocess.run([cmd, '-h'], ...)\<close> gives a return code or raises. The loop goes on to the
  next command after a non-zero return code, a timeout or a missing binary; any other
  exception reaches the outer handler, which answers \<open>False\<close>.
\<close>

fun try_commands :: "(string \<Rightarrow> exn + int) \<Rightarrow> string list \<Rightarrow> exn + bool" where
  "try_commands run [] = Inr False"
| "try_commands run (cmd # rest) =
     (case run cmd of
        Inr returncode \<Rightarrow> if returncode = 0 then Inr True else try_commands run rest
      | Inl e \<Rightarrow>
          if exn_class e = TimeoutExpired \<or> exn_class e = FileNotFoundError
          then try_commands run rest else Inl e)"

definition check_poppler_installation :: "(string \<Rightarrow> exn + int) \<Rightarrow> bool" where
  "check_poppler_installation run =
     (case try_commands run [''pdftoppm'', ''pdftocairo''] of
        Inl e \<Rightarrow> False
      | Inr found \<Rightarrow> found)"

subsection \<open>convert\_pdf\_to\_images (lines 130--221)\<close>

text \<open>The messages of lines 157 and 218.\<close>

definition poppler_missing_msg :: string where
  "poppler_missing_msg =
     ''Poppler'' @ [CHR 0xEC, CHR 0x9D, CHR 0xB4] @ '' '' @
     [CHR 0xEC, CHR 0x84, CHR 0xA4, CHR 0xEC, CHR 0xB9, CHR 0x98, CHR 0xEB, CHR 0x90,
     CHR 0x98, CHR 0xEC, CHR 0xA7, CHR 0x80] @ '' '' @
     [CHR 0xEC, CHR 0x95, CHR 0x8A, CHR 0xEC, CHR 0x95, CHR 0x98, CHR 0xEC, CHR 0x8A,
     CHR 0xB5, CHR 0xEB, CHR 0x8B, CHR 0x88, CHR 0xEB, CHR 0x8B, CHR 0xA4] @ ''. '' @
     [CHR 0xEC, CHR 0x84, CHR 0xA4, CHR 0xEC, CHR 0xB9, CHR 0x98] @ '' '' @
     [CHR 0xEA, CHR 0xB0, CHR 0x80, CHR 0xEC, CHR 0x9D, CHR 0xB4, CHR 0xEB, CHR 0x93,
     CHR 0x9C, CHR 0xEB, CHR 0xA5, CHR 0xBC] @ '' '' @
     [CHR 0xED, CHR 0x99, CHR 0x95, CHR 0xEC, CHR 0x9D, CHR 0xB8, CHR 0xED, CHR 0x95,
     CHR 0xB4, CHR 0xEC, CHR 0xA3, CHR 0xBC, CHR 0xEC, CHR 0x84, CHR 0xB8, CHR 0xEC,
     CHR 0x9A, CHR 0x94] @ ''.''"

definition pdf_corrupt_prefix :: string where
  "pdf_corrupt_prefix =
     ''PDF '' @
     [CHR 0xED, CHR 0x8C, CHR 0x8C, CHR 0xEC, CHR 0x9D, CHR 0xBC, CHR 0xEC, CHR 0x9D,
     CHR 0xB4] @ '' '' @
     [CHR 0xEC, CHR 0x86, CHR 0x90, CHR 0xEC, CHR 0x83, CHR 0x81, CHR 0xEB, CHR 0x90,
     CHR 0x98, CHR 0xEC, CHR 0x97, CHR 0x88, CHR 0xEA, CHR 0xB1, CHR 0xB0, CHR 0xEB,
     CHR 0x82, CHR 0x98] @ '' '' @
     [CHR 0xEC, CHR 0x98, CHR 0xAC, CHR 0xEB, CHR 0xB0, CHR 0x94, CHR 0xEB, CHR 0xA5,
     CHR 0xB4, CHR 0xEC, CHR 0xA7, CHR 0x80] @ '' '' @
     [CHR 0xEC, CHR 0x95, CHR 0x8A, CHR 0xEC, CHR 0x8A, CHR 0xB5, CHR 0xEB, CHR 0x8B,
     CHR 0x88, CHR 0xEB, CHR 0x8B, CHR 0xA4] @ '': ''"

text \<open>
  What the conversion does to the file system and to its caller, in order: the output
  directory it creates, the conversion it starts, the image files it writes and the
  progress it reports.
\<close>

datatype fs_event =
    Mkdtemp string
  | Makedirs string
  | ConvertFromPath string
  | Saved string
  | Reported nat nat

record conv_env =
  subprocess_run :: "string \<Rightarrow> exn + int"
  mkdtemp :: "exn + string"
  makedirs :: "string \<Rightarrow> exn option"
  convert_from_path :: "string \<Rightarrow> int \<Rightarrow> int option \<Rightarrow> int option \<Rightarrow> exn + image list"
  pil_calls :: pil
  image_save :: "image \<Rightarrow> string \<Rightarrow> exn option"
  path_join :: "string \<Rightarrow> string \<Rightarrow> string"

text \<open>\<open>f"{page_num:04d}"\<close>: at least four characters, zeros after the sign.\<close>

definition zfill :: "nat \<Rightarrow> string \<Rightarrow> string" where
  "zfill k s = replicate (k - length s) (CHR ''0'') @ s"

definition fmt_04d :: "int \<Rightarrow> string" where
  "fmt_04d n = (if n < 0 then ''-'' @ zfill 3 (str_nat (nat (- n))) else zfill 4 (str_nat (nat n)))"

text \<open>
  One turn of the loop of lines 187--209. A failed save leaves the page out; an exception
  of the callback is caught by the same handler, after the file was written and its path
  appended. \<open>optimize_image_for_ocr\<close> always returns, so its \<open>Inl\<close> case is never taken.
\<close>

definition convert_page ::
  "conv_env \<Rightarrow> string \<Rightarrow> int option \<Rightarrow> callback option \<Rightarrow> nat \<Rightarrow> nat \<Rightarrow> image \<Rightarrow>
   string list \<times> fs_event list \<Rightarrow> string list \<times> fs_event list" where
  "convert_page env output_folder first_page progress_callback total_pages i img st =
     (case st of (image_paths, trace) \<Rightarrow>
        (case optimize_image_for_ocr (pil_calls env) img of
           Inl e \<Rightarrow> (image_paths, trace)
         | Inr optimized_image \<Rightarrow>
             let page_num =
                   (case first_page of None \<Rightarrow> 1 | Some f \<Rightarrow> if f = 0 then 1 else f) + int i;
                 image_filename = ''page_'' @ fmt_04d page_num @ ''.png'';
                 image_path = path_join env output_folder image_filename
             in (case image_save env optimized_image image_path of
                   Some e \<Rightarrow> (image_paths, trace)
                 | None \<Rightarrow>
                     (case progress_callback of
                        None \<Rightarrow> (image_paths @ [image_path], trace @ [Saved image_path])
                      | Some cb \<Rightarrow>
                          (image_paths @ [image_path],
                           trace @ [Saved image_path, Reported (i + 1) total_pages])))))"

fun convert_pages ::
  "conv_env \<Rightarrow> string \<Rightarrow> int option \<Rightarrow> callback option \<Rightarrow> nat \<Rightarrow> (nat \<times> image) list \<Rightarrow>
   string list \<times> fs_event list \<Rightarrow> string list \<times> fs_event list" where
  "convert_pages env output_folder first_page progress_callback total_pages [] st = st"
| "convert_pages env output_folder first_page progress_callback total_pages ((i, img) # rest) st =
     convert_pages env output_folder first_page progress_callback total_pages rest
       (convert_page env output_folder first_page progress_callback total_pages i img st)"

text \<open>Lines 160--164: the output directory.\<close>

definition make_output_folder :: "conv_env \<Rightarrow> string option \<Rightarrow> (exn + string) \<times> fs_event list" where
  "make_output_folder env output_folder =
     (case output_folder of
        None \<Rightarrow>
          (case mkdtemp env of
             Inl e \<Rightarrow> (Inl e, [])
           | Inr dir \<Rightarrow> (Inr dir, [Mkdtemp dir]))
      | Some dir \<Rightarrow>
          (case makedirs env dir of
             Some e \<Rightarrow> (Inl e, [])
           | None \<Rightarrow> (Inr dir, [Makedirs dir])))"

text \<open>The body of the \<open>try\<close> (lines 154--212).\<close>

definition convert_try ::
  "conv_env \<Rightarrow> string \<Rightarrow> string option \<Rightarrow> int \<Rightarrow> int option \<Rightarrow> int option \<Rightarrow>
   callback option \<Rightarrow> (exn + string list) \<times> fs_event list" where
  "convert_try env pdf_path output_folder dpi first_page last_page progress_callback =
     (if \<not> check_poppler_installation (subprocess_run env) then
        (Inl (Exn PDFInfoNotInstalledError poppler_missing_msg), [])
      else
        (case make_output_folder env output_folder of
           (Inl e, trace) \<Rightarrow> (Inl e, trace)
         | (Inr folder, trace) \<Rightarrow>
             (case convert_from_path env pdf_path dpi first_page last_page of
                Inl e \<Rightarrow> (Inl e, trace @ [ConvertFromPath pdf_path])
              | Inr images \<Rightarrow>
                  (case convert_pages env folder first_page progress_callback (length images)
                          (List.enumerate 0 images) ([], trace @ [ConvertFromPath pdf_path]) of
                     (image_paths, trace') \<Rightarrow> (Inr image_paths, trace')))))"

text \<open>The three handlers (lines 214--221).\<close>

definition convert_pdf_to_images ::
  "conv_env \<Rightarrow> string \<Rightarrow> string option \<Rightarrow> int \<Rightarrow> int option \<Rightarrow> int option \<Rightarrow>
   callback option \<Rightarrow> (exn + string list) \<times> fs_event list" where
  "convert_pdf_to_images env pdf_path output_folder dpi first_page last_page progress_callback =
     (case convert_try env pdf_path output_folder dpi first_page last_page progress_callback of
        (Inl e, trace) \<Rightarrow>
          if exn_class e = PDFInfoNotInstalledError then (Inl e, trace)
          else if exn_class e = PDFSyntaxError then
            (Inl (Exn ValueError (pdf_corrupt_prefix @ exn_msg e)), trace)
          else (Inl e, trace)
      | (Inr image_paths, trace) \<Rightarrow> (Inr image_paths, trace))"

section \<open>file\_manager.py\<close>

subsection \<open>The literals of save\_as\_txt (lines 85--110)\<close>

definition txt_title_line :: string where
  "txt_title_line =
     ''PDF OCR '' @ [CHR 0xEA, CHR 0xB2, CHR 0xB0, CHR 0xEA, CHR 0xB3, CHR 0xBC, CHR 0x0A]"

definition txt_total_label :: string where
  "txt_total_label =
     [CHR 0xEC, CHR 0xB4, CHR 0x9D] @ '' '' @
     [CHR 0xED, CHR 0x8E, CHR 0x98, CHR 0xEC, CHR 0x9D, CHR 0xB4, CHR 0xEC, CHR 0xA7,
     CHR 0x80] @ '' '' @ [CHR 0xEC, CHR 0x88, CHR 0x98] @ '': ''"

definition page_label :: string where
  "page_label =
     [CHR 0xED, CHR 0x8E, CHR 0x98, CHR 0xEC, CHR 0x9D, CHR 0xB4, CHR 0xEC, CHR 0xA7,
     CHR 0x80] @ '' ''"

definition error_tag :: string where
  "error_tag =
     ''['' @ [CHR 0xEC, CHR 0x98, CHR 0xA4, CHR 0xEB, CHR 0xA5, CHR 0x98] @ ''] ''"

definition txt_done_label :: string where
  "txt_done_label =
     [CHR 0x0A, CHR 0xEC, CHR 0xB2, CHR 0x98, CHR 0xEB, CHR 0xA6, CHR 0xAC] @ '' '' @
     [CHR 0xEC, CHR 0x99, CHR 0x84, CHR 0xEB, CHR 0xA3, CHR 0x8C] @ '': ''"

definition txt_done_unit :: string where
  "txt_done_unit =
     [CHR 0xED, CHR 0x8E, CHR 0x98, CHR 0xEC, CHR 0x9D, CHR 0xB4, CHR 0xEC, CHR 0xA7,
     CHR 0x80]"

definition nl :: string where
  "nl = [CHR 0x0A]"

text \<open>\<open>"=" * 50\<close> and \<open>"-" * 20\<close>, and the default of \<open>page_separator\<close> (line 66).\<close>

definition rule50 :: string where
  "rule50 = replicate 50 (CHR ''='')"

definition rule20 :: string where
  "rule20 = replicate 20 (CHR ''-'')"

definition default_page_separator :: string where
  "default_page_separator = nl @ rule50 @ nl"

subsection \<open>save\_as\_txt (lines 61--117)\<close>

text \<open>\<open>max(keys)\<close> raises \<open>ValueError\<close> on an empty sequence.\<close>

definition py_max :: "nat list \<Rightarrow> exn + nat" where
  "py_max ks =
     (case ks of
        [] \<Rightarrow> Inl (Exn ValueError ''max() arg is an empty sequence'')
      | k # rest \<Rightarrow> Inr (fold max rest k))"

text \<open>
  The file is the string written so far; \<open>f.write(s)\<close> appends \<open>s\<close>. One turn of the loop
  of lines 91--106, for key \<open>i\<close>: the exception that leaves it, if any, and the file at
  that moment.
\<close>

definition txt_page ::
  "results \<Rightarrow> bool \<Rightarrow> string \<Rightarrow> nat \<Rightarrow> string \<Rightarrow> exn option \<times> string" where
  "txt_page ocr_results include_page_numbers page_separator i f =
     (case map_of ocr_results i of
        None \<Rightarrow> (Some (Exn KeyError (str_nat i)), f)
      | Some result \<Rightarrow>
          let f1 = (if include_page_numbers
                    then (f @ page_label @ str_int (page result) @ nl) @ rule20 @ nl
                    else f);
              f2 = (if status result = ''success'' then f1 @ page_text result
                    else f1 @ error_tag @ page_text result)
          in (case py_max (map fst ocr_results) of
                Inl e \<Rightarrow> (Some e, f2)
              | Inr m \<Rightarrow> if i < m then (None, f2 @ page_separator) else (None, f2)))"

fun txt_pages ::
  "results \<Rightarrow> bool \<Rightarrow> string \<Rightarrow> nat list \<Rightarrow> string \<Rightarrow> exn option \<times> string" where
  "txt_pages ocr_results include_page_numbers page_separator [] f = (None, f)"
| "txt_pages ocr_results include_page_numbers page_separator (i # rest) f =
     (case txt_page ocr_results include_page_numbers page_separator i f of
        (Some e, f') \<Rightarrow> (Some e, f')
      | (None, f') \<Rightarrow> txt_pages ocr_results include_page_numbers page_separator rest f')"

text \<open>
  The function answers whether it succeeded and leaves the file behind: \<open>None\<close> when
  \<open>open\<close> failed (\<open>open_file\<close> is its outcome), the text written otherwise.
\<close>

definition save_as_txt ::
  "(string \<Rightarrow> exn option) \<Rightarrow> results \<Rightarrow> string \<Rightarrow> bool \<Rightarrow> string \<Rightarrow> bool \<times> string option" where
  "save_as_txt open_file ocr_results output_path include_page_numbers page_separator =
     (case open_file output_path of
        Some e \<Rightarrow> (False, None)
      | None \<Rightarrow>
          let f = txt_title_line @ (rule50 @ nl) @
                  (txt_total_label @ str_nat (length ocr_results) @ nl) @ (rule50 @ nl @ nl)
          in (case txt_pages ocr_results include_page_numbers page_separator
                     (sort (map fst ocr_results)) f of
                (Some e, f') \<Rightarrow> (False, Some f')
              | (None, f') \<Rightarrow>
                  (True,
                   Some (f' @ (nl @ nl @ rule50) @
                         (txt_done_label @ str_nat (length ocr_results) @ txt_done_unit)))))"

subsection \<open>The layout of the text file, as the specification words it\<close>

text \<open>
  A header banner that declares the number of pages; for each page, in ascending order, the
  optional page-number label and the text of the page, with the error tag in front exactly
  when the status is not \<open>success\<close>; the page separator after every page but the last; a
  footer banner with the number of pages.
\<close>

definition header_banner :: "nat \<Rightarrow> string" where
  "header_banner n = txt_title_line @ rule50 @ nl @ txt_total_label @ str_nat n @ nl @ rule50 @ nl @ nl"

definition footer_banner :: "nat \<Rightarrow> string" where
  "footer_banner n = nl @ nl @ rule50 @ txt_done_label @ str_nat n @ txt_done_unit"

definition page_entry :: "bool \<Rightarrow> page_result \<Rightarrow> string" where
  "page_entry numbered r =
     (if numbered then page_label @ str_int (page r) @ nl @ rule20 @ nl else []) @
     (if status r \<noteq> ''success'' then error_tag else []) @ page_text r"

fun separated :: "string \<Rightarrow> string list \<Rightarrow> string" where
  "separated sep [] = []"
| "separated sep [x] = x"
| "separated sep (x # y # ys) = x @ sep @ separated sep (y # ys)"

definition txt_layout :: "page_result list \<Rightarrow> bool \<Rightarrow> string \<Rightarrow> string" where
  "txt_layout pages numbered sep =
     header_banner (length pages) @ separated sep (map (page_entry numbered) pages) @
     footer_banner (length pages)"

subsection \<open>The two PDF backends\<close>










subsection \<open>save\_as\_pdf\_reportlab (lines 194--274)\<close>






subsection \<open>save\_as\_pdf\_fpdf (lines 119--192)\<close>







section \<open>Concrete environments for the examples\<close>

definition env_empty_reply :: ocr_env where
  "env_empty_reply =
     \<lparr>read_file = (\<lambda>p. Inr ''PNG''), b64encode = (\<lambda>b. ''UE5H''),
      suffix_lower = (\<lambda>p. ''.png''), messages_create = (\<lambda>r. Inr [])\<rparr>"

definition env_unreadable :: ocr_env where
  "env_unreadable =
     \<lparr>read_file = (\<lambda>p. Inl (Exn FileNotFoundError ''No such file'')),
      b64encode = (\<lambda>b. ''UE5H''), suffix_lower = (\<lambda>p. ''.png''),
      messages_create = (\<lambda>r. Inr [])\<rparr>"

definition fails_twice :: transcribe where
  "fails_twice k path document_type =
     (if k < 2 then Inl (Exn (OtherError ''APIError'') ''overloaded'') else Inr ''page text'')"

definition always_fails :: transcribe where
  "always_fails k path document_type =
     Inl (Exn (OtherError ''APIError'') (if k = 2 then ''timeout'' else ''overloaded''))"

definition cb_ok :: callback where
  "cb_ok completed total_n = None"

definition second_fails :: transcribe where
  "second_fails k path document_type =
     (if k = 1 then Inl (Exn (OtherError ''APIError'') ''overloaded'') else Inr ''page text'')"

definition pil_ok :: pil where
  "pil_ok c = None"

definition pil_contrast_fails :: pil where
  "pil_contrast_fails c =
     (if c = ContrastCall then Some (Exn ValueError ''image has wrong mode'') else None)"

definition pil_resize_fails :: pil where
  "pil_resize_fails c =
     (if c = ResizeCall then Some (Exn (OtherError ''MemoryError'') ''out of memory'') else None)"

definition env_no_poppler :: conv_env where
  "env_no_poppler =
     \<lparr>subprocess_run = (\<lambda>cmd. Inl (Exn FileNotFoundError cmd)),
      mkdtemp = Inr ''/tmp/tmpab12'',
      makedirs = (\<lambda>dir. None),
      convert_from_path = (\<lambda>pdf dpi first_page last_page. Inr []),
      pil_calls = pil_ok,
      image_save = (\<lambda>img path. None),
      path_join = (\<lambda>dir name. dir @ ''/'' @ name)\<rparr>"

definition env_two_pages :: conv_env where
  "env_two_pages =
     \<lparr>subprocess_run = (\<lambda>cmd. Inr 0),
      mkdtemp = Inr ''/tmp/tmpab12'',
      makedirs = (\<lambda>dir. None),
      convert_from_path =
        (\<lambda>pdf dpi first_page last_page.
           Inr [\<lparr>width = 2480, height = 3508, mode = ''RGB'', history = []\<rparr>,
                \<lparr>width = 2480, height = 3508, mode = ''RGB'', history = []\<rparr>]),
      pil_calls = pil_ok,
      image_save = (\<lambda>img path. None),
      path_join = (\<lambda>dir name. dir @ ''/'' @ name)\<rparr>"

definition two_results :: results where
  "two_results =
     [(0, \<lparr>page = 1, page_text = ''first page'', status = ''success'', image_path = ''p1.png''\<rparr>),
      (1, \<lparr>page = 2, page_text = error_marker_prefix @ ''overloaded'', status = ''error'',
           image_path = ''p2.png''\<rparr>)]"

definition open_ok :: "string \<Rightarrow> exn option" where
  "open_ok path = None"





section \<open>Properties\<close>

lemma prompts_general_present: "dict_getitem prompts ''general'' = Inr prompt_general"
  by (simp add: dict_getitem_def prompts_def)

subsection \<open>get\_ocr\_prompt\<close>

lemma prompt_general_nonempty: "prompt_general \<noteq> []"
  by (simp add: prompt_general_def)
lemma prompt_table_nonempty: "prompt_table \<noteq> []"
  by (simp add: prompt_table_def)
lemma prompt_handwritten_nonempty: "prompt_handwritten \<noteq> []"
  by (simp add: prompt_handwritten_def)
lemma prompt_form_nonempty: "prompt_form \<noteq> []"
  by (simp add: prompt_form_def)

lemma get_ocr_prompt_eq: "get_ocr_prompt d = Inr (dict_get prompts d prompt_general)"
  by (simp add: get_ocr_prompt_def prompts_general_present)

lemma dict_get_prompts_nonempty: "dict_get prompts d prompt_general \<noteq> []"
  by (simp add: dict_get_def prompts_def prompt_general_nonempty prompt_table_nonempty
      prompt_handwritten_nonempty prompt_form_nonempty)

text \<open>
  C10. \<open>get_ocr_prompt\<close> is total on strings: it returns a non-empty instruction for
  every document type and never raises, and a document type outside
  \<open>general\<close>, \<open>table\<close>, \<open>handwritten\<close>, \<open>form\<close> gets the instruction of
  \<open>general\<close>.
\<close>

theorem get_ocr_prompt_total:
  "(\<exists>t. get_ocr_prompt document_type = Inr t \<and> t \<noteq> []) \<and>
   (document_type \<notin> {''general'', ''table'', ''handwritten'', ''form''} \<longrightarrow>
      get_ocr_prompt document_type = Inr prompt_general)"
proof (intro conjI impI)
  show "\<exists>t. get_ocr_prompt document_type = Inr t \<and> t \<noteq> []"
    by (simp add: get_ocr_prompt_eq dict_get_prompts_nonempty)
next
  assume "document_type \<notin> {''general'', ''table'', ''handwritten'', ''form''}"
  then show "get_ocr_prompt document_type = Inr prompt_general"
    by (simp add: get_ocr_prompt_eq dict_get_def prompts_def)
qed

theorem get_ocr_prompt_total_witness:
  "''invoice'' \<notin> {''general'', ''table'', ''handwritten'', ''form''} \<and>
   get_ocr_prompt ''invoice'' = Inr prompt_general \<and> prompt_general \<noteq> []"
  using get_ocr_prompt_total [of "''invoice''"] by (simp add: prompt_general_nonempty)

subsection \<open>extract\_text\_from\_image\<close>

lemma no_text_sentinel_nonempty: "no_text_sentinel \<noteq> []"
  by (simp add: no_text_sentinel_def)

lemma extract_text_from_image_returns:
  "\<exists>t. extract_text_from_image env p d = Inr t"
  by (cases "extract_text_try env p d") (simp_all add: extract_text_from_image_def)

lemma extract_text_try_read_fails:
  "read_file env p = Inl e \<Longrightarrow> extract_text_try env p d = Inl e"
  by (simp add: extract_text_try_def image_to_base64_def)

lemma extract_text_try_read_ok:
  "read_file env p = Inr bytes \<Longrightarrow>
   extract_text_try env p d =
     (case messages_create env
             (create_request (dict_get mime_type_map (suffix_lower env p) ''image/png'')
                (b64encode env bytes) (dict_get prompts d prompt_general)) of
        Inl e \<Rightarrow> Inl e
      | Inr content \<Rightarrow> (case content of [] \<Rightarrow> Inr no_text_sentinel | b # _ \<Rightarrow> block_text b))"
  by (simp add: extract_text_try_def image_to_base64_def get_ocr_prompt_eq Let_def)

text \<open>
  C3. \<open>extract_text_from_image\<close> never raises: it always returns a string. When reading
  the image fails, when the API call fails or when the first content block has no text, the
  string is the error marker followed by the message of the exception; when the response
  has no content block it is the fixed, non-empty "no text extracted" reply; otherwise it is
  the text of the first block.
\<close>

theorem extract_text_from_image_never_raises:
  "(\<exists>t. extract_text_from_image env p d = Inr t) \<and>
   (read_file env p = Inl e \<longrightarrow>
      extract_text_from_image env p d = Inr (error_marker_prefix @ exn_msg e)) \<and>
   (read_file env p = Inr bytes \<and>
    req = create_request (dict_get mime_type_map (suffix_lower env p) ''image/png'')
            (b64encode env bytes) (dict_get prompts d prompt_general) \<longrightarrow>
      (messages_create env req = Inl e \<longrightarrow>
         extract_text_from_image env p d = Inr (error_marker_prefix @ exn_msg e)) \<and>
      (messages_create env req = Inr (NonTextBlock # bs) \<longrightarrow>
         extract_text_from_image env p d =
           Inr (error_marker_prefix @ ''object has no attribute text'')) \<and>
      (messages_create env req = Inr (TextBlock t # bs) \<longrightarrow>
         extract_text_from_image env p d = Inr t) \<and>
      (messages_create env req = Inr [] \<longrightarrow>
         extract_text_from_image env p d = Inr no_text_sentinel \<and> no_text_sentinel \<noteq> []))"
proof (intro conjI impI)
  show "\<exists>t. extract_text_from_image env p d = Inr t"
    by (rule extract_text_from_image_returns)
next
  assume "read_file env p = Inl e"
  then show "extract_text_from_image env p d = Inr (error_marker_prefix @ exn_msg e)"
    by (simp add: extract_text_from_image_def extract_text_try_read_fails)
next
  assume "read_file env p = Inr bytes \<and>
    req = create_request (dict_get mime_type_map (suffix_lower env p) ''image/png'')
            (b64encode env bytes) (dict_get prompts d prompt_general)"
    and "messages_create env req = Inl e"
  then show "extract_text_from_image env p d = Inr (error_marker_prefix @ exn_msg e)"
    by (simp add: extract_text_from_image_def extract_text_try_read_ok)
next
  assume "read_file env p = Inr bytes \<and>
    req = create_request (dict_get mime_type_map (suffix_lower env p) ''image/png'')
            (b64encode env bytes) (dict_get prompts d prompt_general)"
    and "messages_create env req = Inr (NonTextBlock # bs)"
  then show "extract_text_from_image env p d =
      Inr (error_marker_prefix @ ''object has no attribute text'')"
    by (simp add: extract_text_from_image_def extract_text_try_read_ok block_text_def)
next
  assume "read_file env p = Inr bytes \<and>
    req = create_request (dict_get mime_type_map (suffix_lower env p) ''image/png'')
            (b64encode env bytes) (dict_get prompts d prompt_general)"
    and "messages_create env req = Inr (TextBlock t # bs)"
  then show "extract_text_from_image env p d = Inr t"
    by (simp add: extract_text_from_image_def extract_text_try_read_ok block_text_def)
next
  assume "read_file env p = Inr bytes \<and>
    req = create_request (dict_get mime_type_map (suffix_lower env p) ''image/png'')
            (b64encode env bytes) (dict_get prompts d prompt_general)"
    and "messages_create env req = Inr []"
  then show "extract_text_from_image env p d = Inr no_text_sentinel"
    by (simp add: extract_text_from_image_def extract_text_try_read_ok)
next
  show "no_text_sentinel \<noteq> []" by (rule no_text_sentinel_nonempty)
qed

theorem extract_text_from_image_never_raises_witness:
  "read_file env_unreadable ''a.png'' = Inl (Exn FileNotFoundError ''No such file'') \<and>
   extract_text_from_image env_unreadable ''a.png'' ''general'' =
     Inr (error_marker_prefix @ ''No such file'') \<and>
   read_file env_empty_reply ''a.png'' = Inr ''PNG'' \<and>
   messages_create env_empty_reply
     (create_request (dict_get mime_type_map (suffix_lower env_empty_reply ''a.png'') ''image/png'')
        (b64encode env_empty_reply ''PNG'') (dict_get prompts ''general'' prompt_general)) = Inr [] \<and>
   extract_text_from_image env_empty_reply ''a.png'' ''general'' = Inr no_text_sentinel"
  using extract_text_from_image_never_raises
          [of env_unreadable "''a.png''" "''general''" "Exn FileNotFoundError ''No such file''"]
        extract_text_from_image_never_raises
          [of env_empty_reply "''a.png''" "''general''" _ "''PNG''"]
  by (simp add: env_unreadable_def env_empty_reply_def)

subsection \<open>extract\_with\_retry\<close>

lemma retry_loop_all_fail:
  "a < n \<Longrightarrow> \<forall>k. a \<le> k \<and> k < n \<longrightarrow> extract k p d = Inl (errs k) \<Longrightarrow>
   retry_loop extract p d (int n) [a..<n] tr =
     (Inl (errs (n - 1)),
      tr @ concat (map (\<lambda>k. [Called k, Slept (2 ^ k)]) [a..<n - 1]) @ [Called (n - 1)])"
proof (induction "n - a" arbitrary: a tr)
  case 0
  then show ?case by simp
next
  case (Suc m)
  have up: "[a..<n] = a # [Suc a..<n]" using Suc.prems(1) by (simp add: upt_conv_Cons)
  have fa: "extract a p d = Inl (errs a)" using Suc.prems by simp
  show ?case
  proof (cases "Suc a = n")
    case True
    then have "n - 1 = a" by simp
    with True fa show ?thesis by (simp add: up)
  next
    case False
    then have lt: "Suc a < n" using Suc.prems(1) by simp
    have m: "m = n - Suc a" using Suc.hyps(2) by simp
    have rest: "\<forall>k. Suc a \<le> k \<and> k < n \<longrightarrow> extract k p d = Inl (errs k)"
      using Suc.prems(2) by simp
    have up2: "[a..<n - Suc 0] = a # [Suc a..<n - Suc 0]" using lt by (simp add: upt_conv_Cons)
    have ne: "int a \<noteq> int n - 1" using False by linarith
    show ?thesis
      using Suc.hyps(1) [OF m lt rest, of "tr @ [Called a, Slept (2 ^ a)]"] fa ne
      by (simp add: up up2)
  qed
qed


text \<open>
  C4. With \<open>max_retries = 3\<close> and a call that raises on the first two attempts and
  returns on the third, \<open>extract_with_retry\<close> returns that text after exactly three
  calls, sleeping 1 second after the first failure and 2 seconds after the second. When
  all \<open>n\<close> attempts raise (\<open>n > 0\<close>) it raises the last exception, having slept
  \<open>2 ^ k\<close> seconds after each attempt \<open>k\<close> but the last.
\<close>


theorem extract_with_retry_backoff:
  "(extract 0 p d = Inl e0 \<and> extract 1 p d = Inl e1 \<and> extract 2 p d = Inr t \<longrightarrow>
      extract_with_retry extract p d 3 =
        (Inr (Some t), [Called 0, Slept 1, Called 1, Slept 2, Called 2])) \<and>
   (0 < n \<and> (\<forall>k<n. extract k p d = Inl (errs k)) \<longrightarrow>
      extract_with_retry extract p d (int n) =
        (Inl (errs (n - 1)),
         concat (map (\<lambda>k. [Called k, Slept (2 ^ k)]) [0..<n - 1]) @ [Called (n - 1)]))"
proof (intro conjI impI)
  assume h: "extract 0 p d = Inl e0 \<and> extract 1 p d = Inl e1 \<and> extract 2 p d = Inr t"
  have "[0..<nat 3] = [0, 1, 2]" by (simp add: upt_rec)
  with h show "extract_with_retry extract p d 3 =
        (Inr (Some t), [Called 0, Slept 1, Called 1, Slept 2, Called 2])"
    by (simp add: extract_with_retry_def)
next
  assume h: "0 < n \<and> (\<forall>k<n. extract k p d = Inl (errs k))"
  then show "extract_with_retry extract p d (int n) =
        (Inl (errs (n - 1)),
         concat (map (\<lambda>k. [Called k, Slept (2 ^ k)]) [0..<n - 1]) @ [Called (n - 1)])"
    using retry_loop_all_fail [of 0 n "extract" p d errs "[]"]
    by (simp add: extract_with_retry_def)
qed

theorem extract_with_retry_backoff_witness:
  "extract_with_retry fails_twice ''a.png'' ''general'' 3 =
     (Inr (Some ''page text''), [Called 0, Slept 1, Called 1, Slept 2, Called 2]) \<and>
   extract_with_retry always_fails ''a.png'' ''general'' 3 =
     (Inl (Exn (OtherError ''APIError'') ''timeout''), [Called 0, Slept 1, Called 1, Slept 2, Called 2])"
  using extract_with_retry_backoff
          [of fails_twice "''a.png''" "''general''"
              "Exn (OtherError ''APIError'') ''overloaded''"
              "Exn (OtherError ''APIError'') ''overloaded''" "''page text''" 0 "\<lambda>k. undefined"]
        extract_with_retry_backoff
          [of always_fails "''a.png''" "''general''" _ _ _ 3
              "\<lambda>k. Exn (OtherError ''APIError'') (if k = 2 then ''timeout'' else ''overloaded'')"]
  by (simp add: fails_twice_def always_fails_def upt_rec)


lemma extract_with_retry_own_method:
  "0 < max_retries \<Longrightarrow>
   \<exists>t. extract_with_retry (own_transcribe env) p d max_retries = (Inr (Some t), [Called 0])"
proof -
  assume "0 < max_retries"
  then have "[0..<nat max_retries] = 0 # [1..<nat max_retries]" by (simp add: upt_rec)
  moreover obtain t where "extract_text_from_image env p d = Inr t"
    using extract_text_from_image_returns by blast
  ultimately show ?thesis by (simp add: extract_with_retry_def own_transcribe_def)
qed

subsection \<open>extract\_text\_batch\<close>

lemma map_fst_update:
  "map fst (AList.update k v al) = (if k \<in> set (map fst al) then map fst al else map fst al @ [k])"
  by (simp add: update_keys)


lemma set_update_cases:
  "x \<in> set (AList.update k v al) \<Longrightarrow> x = (k, v) \<or> x \<in> set al"
  by (induction al) (auto split: if_splits)


lemma tagged_update:
  "tagged res \<Longrightarrow> status v = ''success'' \<or> status v = ''error'' \<Longrightarrow>
   tagged (AList.update k v res)"
  unfolding tagged_def using set_update_cases by fastforce


lemma batch_try_tagged:
  "batch_try f d delay cb total_n i path (res, tr) = (r, (res', tr')) \<Longrightarrow>
   tagged res \<Longrightarrow> tagged res'"
  by (auto simp: batch_try_def Let_def tagged_update
      split: sum.splits option.splits if_splits)


lemma batch_try_keys:
  "batch_try f d delay cb total_n i path (res, tr) = (r, (res', tr')) \<Longrightarrow>
   i \<notin> set (map fst res) \<Longrightarrow>
   (case r of None \<Rightarrow> map fst res' = map fst res @ [i]
    | Some e \<Rightarrow> map fst res' = map fst res \<or> map fst res' = map fst res @ [i])"
  by (auto simp: batch_try_def Let_def map_fst_update
      split: sum.splits option.splits if_splits)


lemma batch_page_keys:
  assumes "i \<notin> set (map fst res)" and "tagged res"
  shows "map fst (fst (batch_page f d delay cb total_n i path (res, tr))) = map fst res @ [i] \<and>
     tagged (fst (batch_page f d delay cb total_n i path (res, tr)))"
proof -
  obtain r res1 tr1 where
    t: "batch_try f d delay cb total_n i path (res, tr) = (r, (res1, tr1))"
    by (metis surj_pair)
  note k = batch_try_keys [OF t assms(1)] and g = batch_try_tagged [OF t assms(2)]
  show ?thesis
  proof (cases r)
    case None
    with t k g show ?thesis by (simp add: batch_page_def)
  next
    case (Some e)
    from k Some have "map fst res1 = map fst res \<or> map fst res1 = map fst res @ [i]"
      by simp
    then have "map fst (AList.update i v res1) = map fst res @ [i]" for v
    proof
      assume "map fst res1 = map fst res"
      with assms(1) show ?thesis by (simp only: map_fst_update) simp
    next
      assume "map fst res1 = map fst res @ [i]"
      then show ?thesis by (simp only: map_fst_update) simp
    qed
    with t Some g show ?thesis
      by (simp add: batch_page_def batch_except_def tagged_update)
  qed
qed


lemma batch_loop_keys:
  "distinct (map fst ps) \<Longrightarrow> set (map fst ps) \<inter> set (map fst res) = {} \<Longrightarrow> tagged res \<Longrightarrow>
   map fst (fst (batch_loop f d delay cb total_n ps (res, tr))) = map fst res @ map fst ps \<and>
   tagged (fst (batch_loop f d delay cb total_n ps (res, tr)))"
proof (induction ps arbitrary: res tr)
  case Nil
  then show ?case by simp
next
  case (Cons ip ps)
  obtain i path where ip: "ip = (i, path)" by (cases ip)
  obtain res' tr' where turn: "batch_page f d delay cb total_n i path (res, tr) = (res', tr')"
    by (cases "batch_page f d delay cb total_n i path (res, tr)")
  have fresh: "i \<notin> set (map fst res)" using Cons.prems(2) ip by auto
  have keys: "map fst res' = map fst res @ [i]" and tg: "tagged res'"
    using batch_page_keys [OF fresh Cons.prems(3), of f d delay cb total_n path tr] turn
    by simp_all
  have d: "distinct (map fst ps)" using Cons.prems(1) by simp
  have disj: "set (map fst ps) \<inter> set (map fst res') = {}"
    using Cons.prems(1,2) ip keys by auto
  show ?case
    using Cons.IH [OF d disj tg, of tr'] by (simp add: ip turn keys)
qed


text \<open>
  C1. For every list of \<open>N\<close> image paths, whatever the transcription calls, the callback
  and the sleep do, the dictionary returned by \<open>extract_text_batch\<close> has exactly the keys
  \<open>0, \<dots>, N - 1\<close>, each once and in this order, and every entry is tagged
  \<open>success\<close> or \<open>error\<close>.
\<close>


theorem extract_text_batch_keys:
  "map fst (fst (extract_text_batch extract image_paths document_type delay progress_callback))
     = [0..<length image_paths] \<and>
   (\<forall>x \<in> set (fst (extract_text_batch extract image_paths document_type delay
                      progress_callback)).
      status (snd x) = ''success'' \<or> status (snd x) = ''error'')"
  using batch_loop_keys [where ps = "List.enumerate 0 image_paths" and res = "[]"
      and f = "extract" and d = document_type and delay = delay
      and cb = progress_callback and total_n = "length image_paths" and tr = "[]"]
  by (simp add: extract_text_batch_def tagged_def)



lemma batch_page_progress:
  "filter success_or_progress (snd (batch_page f d delay (Some cb) total_n i path (res, tr))) =
   filter success_or_progress tr @
     (case f i path d of
        Inl e \<Rightarrow> []
      | Inr t \<Rightarrow> [Recorded i ''success'', Progress (i + 1) total_n])"
  by (simp add: batch_page_def batch_try_def batch_except_def Let_def success_or_progress_def
      split: sum.split option.split)


lemma batch_loop_progress:
  "filter success_or_progress (snd (batch_loop f d delay (Some cb) total_n ps st)) =
   filter success_or_progress (snd st) @
     concat (map (\<lambda>(i, path). case f i path d of
                     Inl e \<Rightarrow> []
                   | Inr t \<Rightarrow> [Recorded i ''success'', Progress (i + 1) total_n]) ps)"
proof (induction ps arbitrary: st)
  case Nil
  then show ?case by simp
next
  case (Cons ip ps)
  obtain i path where ip: "ip = (i, path)" by (cases ip)
  obtain res tr where st: "st = (res, tr)" by (cases st)
  have turn: "filter success_or_progress (snd (batch_page f d delay (Some cb) total_n i path st)) =
     filter success_or_progress (snd st) @
     (case f i path d of
        Inl e \<Rightarrow> []
      | Inr t \<Rightarrow> [Recorded i ''success'', Progress (i + 1) total_n])"
    unfolding st by (simp only: batch_page_progress snd_conv)
  show ?case
    unfolding ip batch_loop.simps Cons.IH turn by simp
qed



text \<open>
  C2, as the code has it. With a progress callback supplied, the callback is called with
  \<open>(i + 1, N)\<close> exactly for the pages \<open>i\<close> whose transcription call returns, in page
  order and each time right after the \<open>success\<close> result of that page is recorded. A page
  whose transcription call raises is recorded as \<open>error\<close> without a call of the callback.
\<close>


theorem progress_callback_after_success:
  "filter success_or_progress
     (snd (extract_text_batch extract image_paths document_type delay (Some cb))) =
   concat (map (\<lambda>(i, path). case extract i path document_type of
                   Inl e \<Rightarrow> []
                 | Inr t \<Rightarrow> [Recorded i ''success'', Progress (i + 1) (length image_paths)])
             (List.enumerate 0 image_paths))"
  unfolding extract_text_batch_def batch_loop_progress by simp

lemma batch_page_raises:
  "f i path d = Inl e \<Longrightarrow>
   batch_page f d delay cb total_n i path (res, tr) =
     (AList.update i
        \<lparr>page = int i + 1, page_text = error_marker_prefix @ exn_msg e, status = ''error'',
         image_path = path\<rparr> res,
      tr @ [Called i, Recorded i ''error''])"
  by (simp add: batch_page_def batch_try_def batch_except_def)


text \<open>
  One page whose transcription call raises, with a callback supplied: the page is recorded
  as \<open>error\<close> and the callback is never called.
\<close>


theorem progress_callback_counterexample:
  "extract_text_batch always_fails [''p1.png''] ''general'' 1 (Some cb_ok) =
     ([(0, \<lparr>page = 1, page_text = error_marker_prefix @ ''overloaded'', status = ''error'',
            image_path = ''p1.png''\<rparr>)],
      [Called 0, Recorded 0 ''error'']) \<and>
   Progress 1 1 \<notin> set (snd (extract_text_batch always_fails [''p1.png''] ''general'' 1 (Some cb_ok)))"
proof -
  have f: "always_fails 0 ''p1.png'' ''general'' = Inl (Exn (OtherError ''APIError'') ''overloaded'')"
    by (simp add: always_fails_def)
  have "extract_text_batch always_fails [''p1.png''] ''general'' 1 (Some cb_ok) =
     ([(0, \<lparr>page = 1, page_text = error_marker_prefix @ ''overloaded'', status = ''error'',
            image_path = ''p1.png''\<rparr>)],
      [Called 0, Recorded 0 ''error''])"
    by (simp add: extract_text_batch_def batch_page_raises [of always_fails 0 "''p1.png''" "''general''", OF f])
  then show ?thesis by simp
qed



theorem progress_callback_after_success_witness:
  "filter success_or_progress
     (snd (extract_text_batch second_fails [''p1.png'', ''p2.png'', ''p3.png''] ''general'' 1
        (Some cb_ok))) =
   [Recorded 0 ''success'', Progress 1 3, Recorded 2 ''success'', Progress 3 3]"
  using progress_callback_after_success
     [of second_fails "[''p1.png'', ''p2.png'', ''p3.png'']" "''general''" 1 cb_ok]
  by (simp add: second_fails_def)



lemma batch_page_returns:
  "f i path d = Inr t \<Longrightarrow> cb (i + 1) total_n = None \<Longrightarrow> 0 \<le> delay \<Longrightarrow>
   batch_page f d delay (Some cb) total_n i path (res, tr) =
     (AList.update i
        \<lparr>page = int i + 1, page_text = t, status = ''success'', image_path = path\<rparr> res,
      tr @ [Called i, Recorded i ''success'', Progress (i + 1) total_n] @
        (if int i < int total_n - 1 then [Slept delay] else []))"
  by (simp add: batch_page_def batch_try_def time_sleep_def)


theorem extract_text_batch_keys_witness:
  "map fst (fst (extract_text_batch second_fails [''p1.png'', ''p2.png'', ''p3.png''] ''general'' 1
        (Some cb_ok))) = [0, 1, 2] \<and>
   (1, \<lparr>page = 2, page_text = error_marker_prefix @ ''overloaded'', status = ''error'',
        image_path = ''p2.png''\<rparr>)
     \<in> set (fst (extract_text_batch second_fails [''p1.png'', ''p2.png'', ''p3.png''] ''general'' 1
        (Some cb_ok))) \<and>
   (status \<lparr>page = 2, page_text = error_marker_prefix @ ''overloaded'', status = ''error'',
        image_path = ''p2.png''\<rparr> = ''success'' \<or>
    status \<lparr>page = 2, page_text = error_marker_prefix @ ''overloaded'', status = ''error'',
        image_path = ''p2.png''\<rparr> = ''error'')"
proof -
  have a: "second_fails 0 ''p1.png'' ''general'' = Inr ''page text''"
    and b: "second_fails (Suc 0) ''p2.png'' ''general'' =
              Inl (Exn (OtherError ''APIError'') ''overloaded'')"
    and c: "second_fails (Suc (Suc 0)) ''p3.png'' ''general'' = Inr ''page text''"
    by (simp_all add: second_fails_def)
  have ok: "cb_ok x y = None" for x y by (simp add: cb_ok_def)
  have m: "(1, \<lparr>page = 2, page_text = error_marker_prefix @ ''overloaded'', status = ''error'',
        image_path = ''p2.png''\<rparr>)
     \<in> set (fst (extract_text_batch second_fails [''p1.png'', ''p2.png'', ''p3.png''] ''general'' 1
        (Some cb_ok)))"
    by (simp add: extract_text_batch_def
        batch_page_returns [of second_fails 0 "''p1.png''" "''general''", OF a ok]
        batch_page_raises [of second_fails "Suc 0" "''p2.png''" "''general''", OF b]
        batch_page_returns [of second_fails "Suc (Suc 0)" "''p3.png''" "''general''", OF c ok])
  show ?thesis
    using extract_text_batch_keys
      [of second_fails "[''p1.png'', ''p2.png'', ''p3.png'']" "''general''" 1 "Some cb_ok"] m
    by (simp add: upt_rec)
qed

subsection \<open>optimize\_image\_for\_ocr\<close>

text \<open>
  The float arithmetic of lines 100--102 on the two inputs used below, step by step: the
  rounded quotient, the rounded product and its truncation.
\<close>

lemma round_1000_over_998:
  "round_double (500 / 499) =
     4512624877124745 / 4503599627370496"
  by code_simp

lemma truediv_1000_998:
  "py_truediv 1000 998 =
     Inr (4512624877124745 / 4503599627370496)"
  by (simp add: py_truediv_def round_1000_over_998)

lemma round_1000_over_1200:
  "round_double (5 / 6) =
     7505999378950827 / 9007199254740992"
  by code_simp

lemma truediv_1000_1200:
  "py_truediv 1000 1200 =
     Inr (7505999378950827 / 9007199254740992)"
  by (simp add: py_truediv_def round_1000_over_1200)

lemma round_998_by_998:
  "round_double (2251799813685247755 / 2251799813685248) =
     8796093022207999 / 8796093022208"
  by code_simp

lemma mul_998_by_998:
  "py_mul 998 (4512624877124745 / 4503599627370496) =
     8796093022207999 / 8796093022208"
  by (simp add: py_mul_def round_998_by_998)

lemma int_998_by_998:
  "py_int (8796093022207999 / 8796093022208) =
     999"
  by code_simp

lemma round_1200_by_998:
  "round_double (338446865784355875 / 281474976710656) =
     5288232277880561 / 4398046511104"
  by code_simp

lemma mul_1200_by_998:
  "py_mul 1200 (4512624877124745 / 4503599627370496) =
     5288232277880561 / 4398046511104"
  by (simp add: py_mul_def round_1200_by_998)

lemma int_1200_by_998:
  "py_int (5288232277880561 / 4398046511104) =
     1202"
  by code_simp

lemma round_1000_over_500:
  "round_double 2 =
     2"
  by code_simp

lemma truediv_1000_500:
  "py_truediv 1000 500 =
     Inr 2"
  by (simp add: py_truediv_def round_1000_over_500)

lemma round_500_by_500:
  "round_double 1000 =
     1000"
  by code_simp

lemma mul_500_by_500:
  "py_mul 500 2 =
     1000"
  by (simp add: py_mul_def round_500_by_500)

lemma int_500_by_500:
  "py_int 1000 =
     1000"
  by code_simp

lemma upscale_998_1200:
  "upscale pil_ok \<lparr>width = 998, height = 1200, mode = ''RGB'', history = []\<rparr> =
     Inr \<lparr>width = 999, height = 1202, mode = ''RGB'', history = [Resize 999 1202]\<rparr>"
  by (simp add: upscale_def truediv_1000_998 truediv_1000_1200 mul_998_by_998 mul_1200_by_998
      int_998_by_998 int_1200_by_998 pil_ok_def)


text \<open>
  C5 fails on the code. A 998 by 1200 image in mode RGB, every call into PIL returning:
  \<open>1000 / 998\<close> rounds down as a \<open>float\<close>, \<open>998 * scale_factor\<close> is
  \<open>999.9999999999999\<close> and \<open>int\<close> truncates it, so the returned image is 999 pixels
  wide.
\<close>


theorem optimize_image_upscale_falls_short:
  "optimize_image_for_ocr pil_ok \<lparr>width = 998, height = 1200, mode = ''RGB'', history = []\<rparr> =
     Inr \<lparr>width = 999, height = 1202, mode = ''RGB'',
          history = [Resize 999 1202, Contrast, Sharpness]\<rparr>"
  by (simp add: optimize_image_for_ocr_def upscale_998_1200 to_rgb_def contrast_def
      sharpness_def pil_ok_def)


lemma optimize_image_returns: "\<exists>r. optimize_image_for_ocr pil img = Inr r"
proof -
  obtain r i where
    h: "run_stmts [upscale pil, to_rgb pil, contrast pil, sharpness pil] img = (r, i)"
    by (cases "run_stmts [upscale pil, to_rgb pil, contrast pil, sharpness pil] img")
  show ?thesis unfolding optimize_image_for_ocr_def h by (cases r) simp_all
qed


lemma upscale_large:
  "1000 \<le> width img \<Longrightarrow> 1000 \<le> height img \<Longrightarrow> upscale pil img = Inr img"
  by (simp add: upscale_def)


lemma to_rgb_rgb: "mode img = ''RGB'' \<Longrightarrow> to_rgb pil img = Inr img"
  by (simp add: to_rgb_def)


text \<open>
  C6, as the code has it. \<open>optimize_image_for_ocr\<close> never raises. When a step fails it
  returns the image the variable \<open>image\<close> is bound to at that moment: the input image when
  the upscaling fails, the image left by the steps completed before otherwise, which is
  the input image again when those steps had nothing to change.
\<close>


theorem optimize_image_failure_returns_current:
  "(\<exists>r. optimize_image_for_ocr pil img = Inr r) \<and>
   (upscale pil img = Inl e \<longrightarrow> optimize_image_for_ocr pil img = Inr img) \<and>
   (upscale pil img = Inr i1 \<and> to_rgb pil i1 = Inl e \<longrightarrow>
      optimize_image_for_ocr pil img = Inr i1) \<and>
   (upscale pil img = Inr i1 \<and> to_rgb pil i1 = Inr i2 \<and> contrast pil i2 = Inl e \<longrightarrow>
      optimize_image_for_ocr pil img = Inr i2) \<and>
   (upscale pil img = Inr i1 \<and> to_rgb pil i1 = Inr i2 \<and> contrast pil i2 = Inr i3 \<and>
    sharpness pil i3 = Inl e \<longrightarrow>
      optimize_image_for_ocr pil img = Inr i3) \<and>
   (1000 \<le> width img \<and> 1000 \<le> height img \<and> mode img = ''RGB'' \<and>
    contrast pil img = Inl e \<longrightarrow>
      optimize_image_for_ocr pil img = Inr img)"
proof (intro conjI impI)
  show "\<exists>r. optimize_image_for_ocr pil img = Inr r" by (rule optimize_image_returns)
qed (simp_all add: optimize_image_for_ocr_def upscale_large to_rgb_rgb)


lemma upscale_500_500:
  "upscale pil_contrast_fails \<lparr>width = 500, height = 500, mode = ''RGB'', history = []\<rparr> =
     Inr \<lparr>width = 1000, height = 1000, mode = ''RGB'', history = [Resize 1000 1000]\<rparr>"
  by (simp add: upscale_def truediv_1000_500 mul_500_by_500 int_500_by_500
      pil_contrast_fails_def)


text \<open>
  A 500 by 500 image whose contrast step fails: the image returned is the resized one,
  not the input.
\<close>


theorem optimize_image_failure_counterexample:
  "optimize_image_for_ocr pil_contrast_fails
     \<lparr>width = 500, height = 500, mode = ''RGB'', history = []\<rparr> =
     Inr \<lparr>width = 1000, height = 1000, mode = ''RGB'', history = [Resize 1000 1000]\<rparr> \<and>
   optimize_image_for_ocr pil_contrast_fails
     \<lparr>width = 500, height = 500, mode = ''RGB'', history = []\<rparr> \<noteq>
     Inr \<lparr>width = 500, height = 500, mode = ''RGB'', history = []\<rparr>"
  by (simp add: optimize_image_for_ocr_def upscale_500_500 to_rgb_def contrast_def
      pil_contrast_fails_def)


lemma upscale_resize_fails:
  "upscale pil_resize_fails \<lparr>width = 500, height = 500, mode = ''RGB'', history = []\<rparr> =
     Inl (Exn (OtherError ''MemoryError'') ''out of memory'')"
  by (simp add: upscale_def truediv_1000_500 mul_500_by_500 int_500_by_500
      pil_resize_fails_def)


theorem optimize_image_failure_returns_current_witness:
  "upscale pil_resize_fails \<lparr>width = 500, height = 500, mode = ''RGB'', history = []\<rparr> =
     Inl (Exn (OtherError ''MemoryError'') ''out of memory'') \<and>
   optimize_image_for_ocr pil_resize_fails
     \<lparr>width = 500, height = 500, mode = ''RGB'', history = []\<rparr> =
     Inr \<lparr>width = 500, height = 500, mode = ''RGB'', history = []\<rparr>"
  using optimize_image_failure_returns_current
     [of pil_resize_fails "\<lparr>width = 500, height = 500, mode = ''RGB'', history = []\<rparr>"
         "Exn (OtherError ''MemoryError'') ''out of memory''"]
    upscale_resize_fails
  by simp

subsection \<open>convert\_pdf\_to\_images\<close>

lemma poppler_missing_msg_nonempty: "poppler_missing_msg \<noteq> []"
  by (simp add: poppler_missing_msg_def)


lemma check_poppler_binaries_absent:
  "run ''pdftoppm'' = Inl (Exn FileNotFoundError m1) \<Longrightarrow>
   run ''pdftocairo'' = Inl (Exn FileNotFoundError m2) \<Longrightarrow>
   \<not> check_poppler_installation run"
  by (simp add: check_poppler_installation_def)


lemma convert_without_poppler:
  "\<not> check_poppler_installation (subprocess_run env) \<Longrightarrow>
   convert_pdf_to_images env pdf_path output_folder dpi first_page last_page progress_callback =
     (Inl (Exn PDFInfoNotInstalledError poppler_missing_msg), [])"
  by (simp add: convert_pdf_to_images_def convert_try_def)


text \<open>
  C7. When neither \<open>pdftoppm\<close> nor \<open>pdftocairo\<close> can be found, \<open>convert_pdf_to_images\<close>
  raises \<open>PDFInfoNotInstalledError\<close> with the non-empty message of line 157 that points to
  the installation guide, and it has created no directory, started no conversion and
  written no file: its trace is empty.
\<close>


theorem convert_pdf_to_images_missing_binary:
  "subprocess_run env ''pdftoppm'' = Inl (Exn FileNotFoundError m1) \<and>
   subprocess_run env ''pdftocairo'' = Inl (Exn FileNotFoundError m2) \<longrightarrow>
   convert_pdf_to_images env pdf_path output_folder dpi first_page last_page progress_callback =
     (Inl (Exn PDFInfoNotInstalledError poppler_missing_msg), []) \<and>
   poppler_missing_msg \<noteq> []"
  using check_poppler_binaries_absent [of "subprocess_run env" m1 m2]
    convert_without_poppler [of env pdf_path output_folder dpi first_page last_page
      progress_callback]
  by (simp add: poppler_missing_msg_nonempty)

theorem convert_pdf_to_images_missing_binary_witness:
  "subprocess_run env_no_poppler ''pdftoppm'' = Inl (Exn FileNotFoundError ''pdftoppm'') \<and>
   subprocess_run env_no_poppler ''pdftocairo'' = Inl (Exn FileNotFoundError ''pdftocairo'') \<and>
   convert_pdf_to_images env_no_poppler ''scan.pdf'' None 300 None None None =
     (Inl (Exn PDFInfoNotInstalledError poppler_missing_msg), [])"
  using convert_pdf_to_images_missing_binary
     [of env_no_poppler "''pdftoppm''" "''pdftocairo''" "''scan.pdf''" None 300 None None None]
  by (simp add: env_no_poppler_def)


lemma fmt_04d_1: "fmt_04d 1 = ''0001''"
  by (simp add: fmt_04d_def zfill_def str_nat.simps numeral_3_eq_3)


lemma fmt_04d_2: "fmt_04d 2 = ''0002''"
  by (simp add: fmt_04d_def zfill_def str_nat.simps numeral_3_eq_3)


text \<open>With the binary present, the same call creates the directory and writes the pages.\<close>

lemma convert_two_pages:
  "convert_pdf_to_images env_two_pages ''scan.pdf'' None 300 None None None =
     (Inr [''/tmp/tmpab12/page_0001.png'', ''/tmp/tmpab12/page_0002.png''],
      [Mkdtemp ''/tmp/tmpab12'', ConvertFromPath ''scan.pdf'',
       Saved ''/tmp/tmpab12/page_0001.png'', Saved ''/tmp/tmpab12/page_0002.png''])"
  by (simp add: convert_pdf_to_images_def convert_try_def check_poppler_installation_def
      make_output_folder_def env_two_pages_def convert_page_def optimize_image_for_ocr_def
      upscale_def to_rgb_def contrast_def sharpness_def pil_ok_def fmt_04d_1 fmt_04d_2 Let_def)

subsection \<open>save\_as\_txt\<close>

lemma sort_keys_range:
  assumes "distinct ks" and "set ks = {0..<N}"
  shows "sort ks = [0..<N]"
proof -
  have "sort ks = sorted_list_of_set (set ks)"
    using assms(1) by (simp add: sorted_list_of_set_sort_remdups distinct_remdups_id)
  then show ?thesis using assms(2) by simp
qed


lemma length_keys_range:
  assumes "distinct ks" and "set ks = {0..<N}"
  shows "length ks = N"
  using assms distinct_card [of ks] by simp


lemma py_max_range:
  assumes "set ks = {0..<N}" and "0 < N"
  shows "py_max ks = Inr (N - 1)"
proof (cases ks)
  case Nil
  with assms show ?thesis by simp
next
  case (Cons k rest)
  have "fold max rest k = Max (set (k # rest))" by (rule Max.set_eq_fold [symmetric])
  also have "\<dots> = Max {0..<N}" using assms(1) Cons by simp
  also have "\<dots> = N - 1"
  proof (rule Max_eqI)
    show "finite {0..<N}" by simp
    show "y \<le> N - 1" if "y \<in> {0..<N}" for y using that by auto
    show "N - 1 \<in> {0..<N}" using assms(2) by simp
  qed
  finally show ?thesis using Cons by (simp add: py_max_def)
qed


lemma txt_page_entry:
  "map_of d k = Some p \<Longrightarrow> py_max (map fst d) = Inr m \<Longrightarrow>
   txt_page d numbered sep k f =
     (None, f @ page_entry numbered p @ (if k < m then sep else []))"
  by (simp add: txt_page_def page_entry_def)


lemma txt_pages_separated:
  "list_all2 (\<lambda>k p. map_of d k = Some p) ks ps \<Longrightarrow> py_max (map fst d) = Inr m \<Longrightarrow>
   \<forall>k \<in> set (butlast ks). k < m \<Longrightarrow> (ks \<noteq> [] \<longrightarrow> last ks = m) \<Longrightarrow>
   txt_pages d numbered sep ks f = (None, f @ separated sep (map (page_entry numbered) ps))"
proof (induction ks ps arbitrary: f rule: list_all2_induct)
  case Nil
  then show ?case by simp
next
  case (Cons k ks p ps)
  show ?case
  proof (cases ks)
    case Nil
    then have "ps = []" using Cons.hyps(2) by simp
    moreover have "k = m" using Cons.prems(3) Nil by simp
    ultimately show ?thesis
      using Nil txt_page_entry [OF Cons.hyps(1) Cons.prems(1)] by simp
  next
    case (Cons k' ks')
    then obtain p' ps' where ps: "ps = p' # ps'"
      using Cons.hyps(2) by (cases ps) auto
    have km: "k < m" using Cons.prems(2) Cons by simp
    have rest: "\<forall>k \<in> set (butlast ks). k < m" using Cons.prems(2) Cons by simp
    have lst: "ks \<noteq> [] \<longrightarrow> last ks = m" using Cons.prems(3) Cons by simp
    show ?thesis
      using Cons.IH [OF Cons.prems(1) rest lst] km
        txt_page_entry [OF Cons.hyps(1) Cons.prems(1)] ps
      by simp
  qed
qed


lemma txt_pages_range:
  assumes "set (map fst d) = {0..<N}" and "length pages = N"
    and "\<forall>i<N. map_of d i = Some (pages ! i)"
  shows "txt_pages d numbered sep [0..<N] f =
     (None, f @ separated sep (map (page_entry numbered) pages))"
proof (cases "N = 0")
  case True
  with assms(2) show ?thesis by simp
next
  case False
  then have pos: "0 < N" by simp
  have m: "py_max (map fst d) = Inr (N - 1)" by (rule py_max_range [OF assms(1) pos])
  have l: "list_all2 (\<lambda>k p. map_of d k = Some p) [0..<N] pages"
    using assms(2,3) by (simp add: list_all2_conv_all_nth)
  have b: "\<forall>k \<in> set (butlast [0..<N]). k < N - 1" by (auto simp: butlast_conv_take)
  have e: "[0..<N] \<noteq> [] \<longrightarrow> last [0..<N] = N - 1" using pos by (simp add: last_upt)
  show ?thesis by (rule txt_pages_separated [OF l m b e])
qed


text \<open>
  C8. For a result dictionary with the keys \<open>0, \<dots>, N - 1\<close>, page \<open>i\<close> being
  \<open>pages ! i\<close>, and a file that can be opened, \<open>save_as_txt\<close> succeeds and writes the
  layout of the specification: the header declaring \<open>N\<close>, the pages in ascending key
  order, each with its optional label and its text (with the error tag exactly when the
  status is not \<open>success\<close>), the separator after every page but the last, and the footer.
  For no page the file is the header for 0 and the footer; for one page it is the header
  for 1, the page and the footer, with no separator.
\<close>


theorem save_as_txt_layout:
  "(distinct (map fst ocr_results) \<and> set (map fst ocr_results) = {0..<N} \<and>
    length pages = N \<and> (\<forall>i<N. map_of ocr_results i = Some (pages ! i)) \<and>
    open_file output_path = None \<longrightarrow>
      save_as_txt open_file ocr_results output_path include_page_numbers page_separator =
        (True, Some (txt_layout pages include_page_numbers page_separator))) \<and>
   txt_layout [] include_page_numbers page_separator = header_banner 0 @ footer_banner 0 \<and>
   txt_layout [p] include_page_numbers page_separator =
     header_banner 1 @ page_entry include_page_numbers p @ footer_banner 1"
proof (intro conjI impI)
  assume h: "distinct (map fst ocr_results) \<and> set (map fst ocr_results) = {0..<N} \<and>
    length pages = N \<and> (\<forall>i<N. map_of ocr_results i = Some (pages ! i)) \<and>
    open_file output_path = None"
  then have s: "sort (map fst ocr_results) = [0..<N]"
    using sort_keys_range by blast
  have n: "length ocr_results = N"
    using h length_keys_range [of "map fst ocr_results" N] by simp
  have t: "txt_pages ocr_results include_page_numbers page_separator [0..<N] f =
     (None, f @ separated page_separator (map (page_entry include_page_numbers) pages))" for f
    using h txt_pages_range [of ocr_results N pages] by blast
  show "save_as_txt open_file ocr_results output_path include_page_numbers page_separator =
        (True, Some (txt_layout pages include_page_numbers page_separator))"
    using h by (simp add: save_as_txt_def s n t txt_layout_def header_banner_def
        footer_banner_def)
qed (simp_all add: txt_layout_def)

theorem save_as_txt_layout_witness:
  "distinct (map fst two_results) \<and> set (map fst two_results) = {0..<2} \<and>
   map_of two_results 0 = Some (map snd two_results ! 0) \<and>
   map_of two_results 1 = Some (map snd two_results ! 1) \<and>
   open_ok ''out.txt'' = None \<and>
   save_as_txt open_ok two_results ''out.txt'' True default_page_separator =
     (True,
      Some (header_banner 2 @
            (page_label @ ''1'' @ nl @ rule20 @ nl @ ''first page'') @
            default_page_separator @
            (page_label @ ''2'' @ nl @ rule20 @ nl @ error_tag @ error_marker_prefix @
             ''overloaded'') @
            footer_banner 2))"
proof -
  have k: "distinct (map fst two_results) \<and> set (map fst two_results) = {0..<2}"
    by (auto simp: two_results_def)
  have l: "\<forall>i<2. map_of two_results i = Some (map snd two_results ! i)"
    by (simp add: two_results_def numeral_2_eq_2 less_Suc_eq)
  have o: "open_ok ''out.txt'' = None" by (simp add: open_ok_def)
  have s1: "str_int 1 = ''1''" and s2: "str_int 2 = ''2''"
    by (simp_all add: str_int_def str_nat.simps)
  have r: "save_as_txt open_ok two_results ''out.txt'' True default_page_separator =
     (True, Some (txt_layout (map snd two_results) True default_page_separator))"
    using save_as_txt_layout [of two_results 2 "map snd two_results" open_ok "''out.txt''"
        True default_page_separator] k l o
    by (simp add: two_results_def)
  have t: "txt_layout (map snd two_results) True default_page_separator =
     header_banner 2 @
            (page_label @ ''1'' @ nl @ rule20 @ nl @ ''first page'') @
            default_page_separator @
            (page_label @ ''2'' @ nl @ rule20 @ nl @ error_tag @ error_marker_prefix @
             ''overloaded'') @
            footer_banner 2"
    by (simp add: txt_layout_def page_entry_def two_results_def s1 s2 numeral_2_eq_2)
  have l0: "map_of two_results 0 = Some (map snd two_results ! 0)"
    and l1: "map_of two_results 1 = Some (map snd two_results ! 1)"
    by (simp_all add: two_results_def)
  show ?thesis unfolding r t using k l0 l1 o by blast
qed

subsection \<open>save\_as\_pdf\_fpdf\<close>




















end
